theory Spec2Isabelle
  imports Main "HOL-Library.Multiset" "HOL-Library.Char_ord" "HOL-Library.List_Lexorder"
begin

section \<open>Constants and error values (mgmterror.go)\<close>

definition netconf_module :: string where "netconf_module = ''ietf-netconf''"
definition netconf_namespace :: string where
  "netconf_namespace = ''urn:ietf:params:xml:ns:netconf:base:1.0''"
definition yang_module :: string where "yang_module = ''ietf-yang''"
definition yang_namespace :: string where "yang_namespace = ''urn:ietf:params:xml:ns:yang:1''"
definition vyattaModule :: string where "vyattaModule = ''vyatta-yang''"
definition VyattaNamespace :: string where "VyattaNamespace = ''urn:vyatta.com:mgmt:error:1''"
definition error_msg_separator :: string where "error_msg_separator = '': ''"

named_theorems ns_defs \<open>the namespace and module constants\<close>
declare netconf_module_def [ns_defs] netconf_namespace_def [ns_defs] yang_module_def [ns_defs]
  yang_namespace_def [ns_defs] vyattaModule_def [ns_defs] VyattaNamespace_def [ns_defs]

text \<open>
  Go errors and panics as values. The first four are the package's \<open>errors.New\<close> values;
  \<open>UnmarshalTypeError\<close> is the decode failure of encoding/json on a value of the wrong shape;
  the two \<open>panic_\<close> constructors are the run-time panics of an out-of-range index and of a method
  call on a nil interface; \<open>foreign_error\<close> is an error returned by a marshaller that is not part
  of this package.
\<close>
datatype error =
    invalid_error_tag
  | invalid_error_type
  | invalid_error_tag_type
  | malformed_error_info_tag
  | UnmarshalTypeError
  | panic_index_out_of_range
  | panic_nil_dereference
  | foreign_error string

datatype errtype = transport | rpc | protocol | application

definition errtypemap :: "string \<rightharpoonup> errtype" where
  "errtypemap = map_of
     [(''transport'', transport), (''rpc'', rpc),
      (''protocol'', protocol), (''application'', application)]"

fun errtype_String :: "errtype \<Rightarrow> string" where
  "errtype_String transport = ''transport''"
| "errtype_String rpc = ''rpc''"
| "errtype_String protocol = ''protocol''"
| "errtype_String application = ''application''"

section \<open>Info tags and the canonical record\<close>

record xml_Name =
  Space :: string
  Local :: string

record xml_named =
  XMLName :: xml_Name

record MgmtErrorInfoTag = xml_named +
  Value :: string

type_synonym MgmtErrorInfo = "MgmtErrorInfoTag list"

record MgmtError = xml_named +
  Typ :: string
  Tag :: string
  Severity :: string
  AppTag :: string
  Path :: string
  Message :: string
  Info :: MgmtErrorInfo

definition lookupNamespace :: "string \<Rightarrow> string" where
  "lookupNamespace module =
     (case map_of [(netconf_module, netconf_namespace),
                   (yang_module, yang_namespace),
                   (vyattaModule, VyattaNamespace)] module of
        None \<Rightarrow> module
      | Some ns \<Rightarrow> ns)"

definition lookupModule :: "string \<Rightarrow> string" where
  "lookupModule ns =
     (case map_of [(netconf_namespace, netconf_module),
                   (yang_namespace, yang_module),
                   (VyattaNamespace, vyattaModule)] ns of
        None \<Rightarrow> ns
      | Some module \<Rightarrow> module)"

definition NewMgmtErrorInfoTag :: "string \<Rightarrow> string \<Rightarrow> string \<Rightarrow> MgmtErrorInfoTag" where
  "NewMgmtErrorInfoTag ns name v = \<lparr>XMLName = \<lparr>Space = ns, Local = name\<rparr>, Value = v\<rparr>"

text \<open>The zero value of the Go struct, which a decoder starts from.\<close>
definition zero_MgmtErrorInfoTag :: MgmtErrorInfoTag where
  "zero_MgmtErrorInfoTag = \<lparr>XMLName = \<lparr>Space = [], Local = []\<rparr>, Value = []\<rparr>"

definition zero_MgmtError :: MgmtError where
  "zero_MgmtError =
     \<lparr>XMLName = \<lparr>Space = [], Local = []\<rparr>, Typ = [], Tag = [], Severity = [], AppTag = [],
      Path = [], Message = [], Info = []\<rparr>"

definition setXMLName :: "MgmtError \<Rightarrow> MgmtError" where
  "setXMLName e = e\<lparr>XMLName := \<lparr>Space = netconf_namespace, Local = ''rpc-error''\<rparr>\<rparr>"

definition newMgmtError :: MgmtError where
  "newMgmtError = setXMLName zero_MgmtError"

fun FindMgmtErrorTag :: "MgmtErrorInfo \<Rightarrow> string \<Rightarrow> string \<Rightarrow> string" where
  "FindMgmtErrorTag [] ns name = []"
| "FindMgmtErrorTag (t # ts) ns name =
     (if Space (XMLName t) = ns \<and> Local (XMLName t) = name then Value t
      else FindMgmtErrorTag ts ns name)"

section \<open>The typed wrappers\<close>

text \<open>
  Every typed error is a Go struct that embeds a pointer to the canonical record and nothing
  else; a \<open>create...\<close> function of the source only chooses the struct. The wrapper is therefore
  modelled by the name of its struct, and a catalog entry by the wrapper its constructor builds.
\<close>
datatype wrapper =
    InUseProtocolError | InUseApplicationError
  | InvalidValueProtocolError | InvalidValueApplicationError
  | TooBigTransportError | TooBigRpcError | TooBigProtocolError | TooBigApplicationError
  | MissingAttrRpcError | MissingAttrProtocolError | MissingAttrApplicationError
  | BadAttrRpcError | BadAttrProtocolError | BadAttrApplicationError
  | UnknownAttrRpcError | UnknownAttrProtocolError | UnknownAttrApplicationError
  | MissingElementProtocolError | MissingElementApplicationError
  | BadElementProtocolError | BadElementApplicationError
  | UnknownElementProtocolError | UnknownElementApplicationError
  | UnknownNamespaceProtocolError | UnknownNamespaceApplicationError
  | AccessDeniedProtocolError | AccessDeniedApplicationError
  | LockDeniedError
  | ResourceDeniedTransportError | ResourceDeniedRpcError
  | ResourceDeniedProtocolError | ResourceDeniedApplicationError
  | RollbackFailedProtocolError | RollbackFailedApplicationError
  | DataExistsError | DataMissingError
  | OperationNotSupportedProtocolError | OperationNotSupportedApplicationError
  | OperationFailedProtocolError | OperationFailedApplicationError | OperationFailedRpcError
  | MalformedMessageError
  | NonUniqueError | TooManyElementsError | TooFewElementsError | MustViolationError
  | InstanceRequiredError | LeafrefMismatchError | MissingChoiceError | InsertFailedError
  | ExecError | PathAmbiguousError

section \<open>Base-protocol catalog (ncerror.go)\<close>

type_synonym ncerrseverity = nat
definition nc_severity_error :: ncerrseverity where "nc_severity_error = 0"

definition ncerrseverity_String :: "ncerrseverity \<Rightarrow> string" where
  "ncerrseverity_String s = (case map_of [(nc_severity_error, ''error'')] s of
                               None \<Rightarrow> [] | Some v \<Rightarrow> v)"

text \<open>\<open>ncerrtag\<close> is a Go \<open>uint\<close>: the nineteen constants are the values 0 to 18 of the
  \<open>iota\<close> block, and every other number is a tag no table knows.\<close>
type_synonym ncerrtag = nat

definition in_use :: ncerrtag where "in_use = 0"
definition invalid_value :: ncerrtag where "invalid_value = 1"
definition too_big :: ncerrtag where "too_big = 2"
definition missing_attribute :: ncerrtag where "missing_attribute = 3"
definition bad_attribute :: ncerrtag where "bad_attribute = 4"
definition unknown_attribute :: ncerrtag where "unknown_attribute = 5"
definition missing_element :: ncerrtag where "missing_element = 6"
definition bad_element :: ncerrtag where "bad_element = 7"
definition unknown_element :: ncerrtag where "unknown_element = 8"
definition unknown_namespace :: ncerrtag where "unknown_namespace = 9"
definition access_denied :: ncerrtag where "access_denied = 10"
definition lock_denied :: ncerrtag where "lock_denied = 11"
definition resource_denied :: ncerrtag where "resource_denied = 12"
definition rollback_failed :: ncerrtag where "rollback_failed = 13"
definition data_exists :: ncerrtag where "data_exists = 14"
definition data_missing :: ncerrtag where "data_missing = 15"
definition operation_not_supported :: ncerrtag where "operation_not_supported = 16"
definition operation_failed :: ncerrtag where "operation_failed = 17"
definition malformed_message :: ncerrtag where "malformed_message = 18"

named_theorems nctag_defs \<open>the base-protocol tag constants\<close>
declare in_use_def [nctag_defs] invalid_value_def [nctag_defs] too_big_def [nctag_defs]
  missing_attribute_def [nctag_defs] bad_attribute_def [nctag_defs]
  unknown_attribute_def [nctag_defs] missing_element_def [nctag_defs]
  bad_element_def [nctag_defs] unknown_element_def [nctag_defs]
  unknown_namespace_def [nctag_defs] access_denied_def [nctag_defs]
  lock_denied_def [nctag_defs] resource_denied_def [nctag_defs]
  rollback_failed_def [nctag_defs] data_exists_def [nctag_defs] data_missing_def [nctag_defs]
  operation_not_supported_def [nctag_defs] operation_failed_def [nctag_defs]
  malformed_message_def [nctag_defs]

definition ncerrtag_list :: "(string \<times> ncerrtag) list" where
  "ncerrtag_list =
     [(''in-use'', in_use),
      (''invalid-value'', invalid_value),
      (''too-big'', too_big),
      (''missing-attribute'', missing_attribute),
      (''bad-attribute'', bad_attribute),
      (''unknown-attribute'', unknown_attribute),
      (''missing-element'', missing_element),
      (''bad-element'', bad_element),
      (''unknown-element'', unknown_element),
      (''unknown-namespace'', unknown_namespace),
      (''access-denied'', access_denied),
      (''lock-denied'', lock_denied),
      (''resource-denied'', resource_denied),
      (''rollback-failed'', rollback_failed),
      (''data-exists'', data_exists),
      (''data-missing'', data_missing),
      (''operation-not-supported'', operation_not_supported),
      (''operation-failed'', operation_failed),
      (''malformed-message'', malformed_message)]"

definition ncerrtagmap :: "string \<rightharpoonup> ncerrtag" where
  "ncerrtagmap = map_of ncerrtag_list"

text \<open>\<open>String()\<close> ranges over the map and returns the key of the first entry with the value;
  the values of the map are distinct, so the order of the range does not matter.\<close>
definition string_of_id :: "(string \<times> nat) list \<Rightarrow> nat \<Rightarrow> string" where
  "string_of_id tbl t = (case find (\<lambda>(s, v). t = v) tbl of None \<Rightarrow> [] | Some (s, v) \<Rightarrow> s)"

definition ncerrtag_String :: "ncerrtag \<Rightarrow> string" where
  "ncerrtag_String t = string_of_id ncerrtag_list t"

definition msg_nc_in_use :: string where
  "msg_nc_in_use = ''The request requires a resource that already is in use.''"
definition msg_nc_invalid_value :: string where
  "msg_nc_invalid_value =
     ''The request specifies an unacceptable value for one or more parameters.''"
definition msg_nc_too_big :: string where
  "msg_nc_too_big = ''The request or response (that would be generated) is too large for the implementation to handle.''"
definition msg_nc_missing_attribute :: string where
  "msg_nc_missing_attribute = ''An expected attribute is missing.''"
definition msg_nc_bad_attribute :: string where
  "msg_nc_bad_attribute = ''An attribute value is not correct; e.g., wrong type, out of range, pattern mismatch.''"
definition msg_nc_unknown_attribute :: string where
  "msg_nc_unknown_attribute = ''An unexpected attribute is present.''"
definition msg_nc_missing_element :: string where
  "msg_nc_missing_element = ''An expected element is missing.''"
definition msg_nc_bad_element :: string where
  "msg_nc_bad_element = ''An element value is not correct; e.g., wrong type, out of range, pattern mismatch.''"
definition msg_nc_unknown_element :: string where
  "msg_nc_unknown_element = ''An unexpected element is present.''"
definition msg_nc_unknown_namespace :: string where
  "msg_nc_unknown_namespace = ''An unexpected namespace is present.''"
definition msg_nc_access_denied :: string where
  "msg_nc_access_denied = ''Access to the requested protocol operation or data model is denied because authorization failed.''"
definition msg_nc_lock_denied :: string where
  "msg_nc_lock_denied = ''Access to the requested lock is denied because the lock is currently held by another entity.''"
definition msg_nc_resource_denied :: string where
  "msg_nc_resource_denied = ''Request could not be completed because of insufficient resources.''"
definition msg_nc_rollback_failed :: string where
  "msg_nc_rollback_failed = ''Request to roll back some configuration change (via rollback-on-error or <discard-changes> operations) was not completed for some reason.''"
definition msg_nc_data_exists :: string where
  \<open>msg_nc_data_exists = ''Request could not be completed because the relevant data model content already exists.  For example, a "create" operation was attempted on data that already exists.''\<close>
definition msg_nc_data_missing :: string where
  \<open>msg_nc_data_missing = ''Request could not be completed because the relevant data model content does not exist.  For example, a "delete" operation was attempted on data that does not exist.''\<close>
definition msg_nc_operation_not_supported :: string where
  "msg_nc_operation_not_supported = ''Request could not be completed because the requested operation is not supported by this implementation.''"
definition msg_nc_operation_failed :: string where
  "msg_nc_operation_failed = ''Request could not be completed because the requested operation failed for some reason not covered by any other error condition.''"
definition msg_nc_malformed_message :: string where
  "msg_nc_malformed_message = ''A message could not be handled because it failed to be parsed correctly.  For example, the message is not well-formed XML or it uses an invalid character set.''"

type_synonym typeMap = "errtype \<rightharpoonup> wrapper"

record ncErrTag =
  nc_severity :: ncerrseverity
  nc_msg :: string
  nc_typ :: typeMap

definition ncErrTable_list :: "(ncerrtag \<times> ncErrTag) list" where
  "ncErrTable_list =
     [(in_use, \<lparr>nc_severity = nc_severity_error, nc_msg = msg_nc_in_use,
         nc_typ = map_of [(protocol, InUseProtocolError),
                          (application, InUseApplicationError)]\<rparr>),
      (invalid_value, \<lparr>nc_severity = nc_severity_error, nc_msg = msg_nc_invalid_value,
         nc_typ = map_of [(protocol, InvalidValueProtocolError),
                          (application, InvalidValueApplicationError)]\<rparr>),
      (too_big, \<lparr>nc_severity = nc_severity_error, nc_msg = msg_nc_too_big,
         nc_typ = map_of [(transport, TooBigTransportError),
                          (rpc, TooBigRpcError),
                          (protocol, TooBigProtocolError),
                          (application, TooBigApplicationError)]\<rparr>),
      (missing_attribute, \<lparr>nc_severity = nc_severity_error, nc_msg = msg_nc_missing_attribute,
         nc_typ = map_of [(rpc, MissingAttrRpcError),
                          (protocol, MissingAttrProtocolError),
                          (application, MissingAttrApplicationError)]\<rparr>),
      (bad_attribute, \<lparr>nc_severity = nc_severity_error, nc_msg = msg_nc_bad_attribute,
         nc_typ = map_of [(rpc, BadAttrRpcError),
                          (protocol, BadAttrProtocolError),
                          (application, BadAttrApplicationError)]\<rparr>),
      (unknown_attribute, \<lparr>nc_severity = nc_severity_error, nc_msg = msg_nc_unknown_attribute,
         nc_typ = map_of [(rpc, UnknownAttrRpcError),
                          (protocol, UnknownAttrProtocolError),
                          (application, UnknownAttrApplicationError)]\<rparr>),
      (missing_element, \<lparr>nc_severity = nc_severity_error, nc_msg = msg_nc_missing_element,
         nc_typ = map_of [(protocol, MissingElementProtocolError),
                          (application, MissingElementApplicationError)]\<rparr>),
      (bad_element, \<lparr>nc_severity = nc_severity_error, nc_msg = msg_nc_bad_element,
         nc_typ = map_of [(protocol, BadElementProtocolError),
                          (application, BadElementApplicationError)]\<rparr>),
      (unknown_element, \<lparr>nc_severity = nc_severity_error, nc_msg = msg_nc_unknown_element,
         nc_typ = map_of [(protocol, UnknownElementProtocolError),
                          (application, UnknownElementApplicationError)]\<rparr>),
      (unknown_namespace, \<lparr>nc_severity = nc_severity_error, nc_msg = msg_nc_unknown_namespace,
         nc_typ = map_of [(protocol, UnknownNamespaceProtocolError),
                          (application, UnknownNamespaceApplicationError)]\<rparr>),
      (access_denied, \<lparr>nc_severity = nc_severity_error, nc_msg = msg_nc_access_denied,
         nc_typ = map_of [(protocol, AccessDeniedProtocolError),
                          (application, AccessDeniedApplicationError)]\<rparr>),
      (lock_denied, \<lparr>nc_severity = nc_severity_error, nc_msg = msg_nc_lock_denied,
         nc_typ = map_of [(protocol, LockDeniedError)]\<rparr>),
      (resource_denied, \<lparr>nc_severity = nc_severity_error, nc_msg = msg_nc_resource_denied,
         nc_typ = map_of [(transport, ResourceDeniedTransportError),
                          (rpc, ResourceDeniedRpcError),
                          (protocol, ResourceDeniedProtocolError),
                          (application, ResourceDeniedApplicationError)]\<rparr>),
      (rollback_failed, \<lparr>nc_severity = nc_severity_error, nc_msg = msg_nc_rollback_failed,
         nc_typ = map_of [(protocol, RollbackFailedProtocolError),
                          (application, RollbackFailedApplicationError)]\<rparr>),
      (data_exists, \<lparr>nc_severity = nc_severity_error, nc_msg = msg_nc_data_exists,
         nc_typ = map_of [(application, DataExistsError)]\<rparr>),
      (data_missing, \<lparr>nc_severity = nc_severity_error, nc_msg = msg_nc_data_missing,
         nc_typ = map_of [(application, DataMissingError)]\<rparr>),
      (operation_not_supported,
       \<lparr>nc_severity = nc_severity_error, nc_msg = msg_nc_operation_not_supported,
         nc_typ = map_of [(protocol, OperationNotSupportedProtocolError),
                          (application, OperationNotSupportedApplicationError)]\<rparr>),
      (operation_failed, \<lparr>nc_severity = nc_severity_error, nc_msg = msg_nc_operation_failed,
         nc_typ = map_of [(rpc, OperationFailedRpcError),
                          (protocol, OperationFailedProtocolError),
                          (application, OperationFailedApplicationError)]\<rparr>),
      (malformed_message, \<lparr>nc_severity = nc_severity_error, nc_msg = msg_nc_malformed_message,
         nc_typ = map_of [(rpc, MalformedMessageError)]\<rparr>)]"

definition ncErrTable :: "ncerrtag \<rightharpoonup> ncErrTag" where
  "ncErrTable = map_of ncErrTable_list"

text \<open>The info pointer of the source is an option: \<open>nil\<close> leaves the field as it is.\<close>
definition setNcError ::
  "MgmtError \<Rightarrow> ncerrtag \<Rightarrow> string \<Rightarrow> string \<Rightarrow> string \<Rightarrow> MgmtErrorInfo option
     \<Rightarrow> error + MgmtError" where
  "setNcError e tag typ apptag path info =
     (case ncErrTable tag of
        None \<Rightarrow> Inl invalid_error_tag
      | Some ncErrTag \<Rightarrow>
          (case errtypemap typ of
             None \<Rightarrow> Inl invalid_error_type
           | Some errTypeId \<Rightarrow>
               (case nc_typ ncErrTag errTypeId of
                  None \<Rightarrow> Inl invalid_error_tag_type
                | Some _ \<Rightarrow>
                    Inr (e\<lparr>Tag := ncerrtag_String tag,
                           Typ := typ,
                           Severity := ncerrseverity_String (nc_severity ncErrTag),
                           Message := nc_msg ncErrTag,
                           AppTag := apptag,
                           Path := path,
                           Info := (case info of None \<Rightarrow> Info e | Some i \<Rightarrow> i)\<rparr>))))"

text \<open>\<open>newNcError\<close> panics with the error of \<open>setNcError\<close>: \<open>Inl\<close> is that panic.\<close>
definition newNcError ::
  "ncerrtag \<Rightarrow> string \<Rightarrow> string \<Rightarrow> string \<Rightarrow> MgmtErrorInfo option \<Rightarrow> error + MgmtError" where
  "newNcError tag typ apptag path info = setNcError newMgmtError tag typ apptag path info"

type_synonym ncErrInfoId = nat
definition bad_attribute_info :: ncErrInfoId where "bad_attribute_info = 0"
definition bad_element_info :: ncErrInfoId where "bad_element_info = 1"
definition bad_namespace_info :: ncErrInfoId where "bad_namespace_info = 2"
definition session_id_info :: ncErrInfoId where "session_id_info = 3"

definition ncErrInfoId_String :: "ncErrInfoId \<Rightarrow> string" where
  "ncErrInfoId_String i =
     (case map_of [(bad_attribute_info, ''bad-attribute''),
                   (bad_element_info, ''bad-element''),
                   (bad_namespace_info, ''bad-namespace''),
                   (session_id_info, ''session-id'')] i of
        None \<Rightarrow> [] | Some s \<Rightarrow> s)"

definition newAttrError :: "ncerrtag \<Rightarrow> string \<Rightarrow> string \<Rightarrow> string \<Rightarrow> error + MgmtError" where
  "newAttrError tag typ badAttr badElem =
     newNcError tag typ [] []
       (Some [\<lparr>XMLName = \<lparr>Space = [], Local = ncErrInfoId_String bad_attribute_info\<rparr>,
                Value = badAttr\<rparr>,
              \<lparr>XMLName = \<lparr>Space = [], Local = ncErrInfoId_String bad_element_info\<rparr>,
                Value = badElem\<rparr>])"

definition newElemError :: "ncerrtag \<Rightarrow> string \<Rightarrow> string \<Rightarrow> error + MgmtError" where
  "newElemError tag typ badElem =
     newNcError tag typ [] []
       (Some [\<lparr>XMLName = \<lparr>Space = [], Local = ncErrInfoId_String bad_element_info\<rparr>,
                Value = badElem\<rparr>])"

definition newMissingElemError :: "string \<Rightarrow> string \<Rightarrow> error + MgmtError" where
  "newMissingElemError typ badElem = newElemError missing_element typ badElem"

definition newUnknownElemError :: "string \<Rightarrow> string \<Rightarrow> error + MgmtError" where
  "newUnknownElemError typ badElem = newElemError unknown_element typ badElem"

definition newOperationFailedError :: "string \<Rightarrow> error + MgmtError" where
  "newOperationFailedError typ = newNcError operation_failed typ [] [] None"


definition newLockDeniedInfo :: "string \<Rightarrow> MgmtErrorInfo" where
  "newLockDeniedInfo sess =
     [\<lparr>XMLName = \<lparr>Space = [], Local = ncErrInfoId_String session_id_info\<rparr>, Value = sess\<rparr>]"

section \<open>YANG catalog\<close>

type_synonym yerrseverity = nat
definition yang_severity_error :: yerrseverity where "yang_severity_error = 0"
definition yang_severity_warning :: yerrseverity where "yang_severity_warning = 1"

definition yerrseverity_String :: "yerrseverity \<Rightarrow> string" where
  "yerrseverity_String s =
     (case map_of [(yang_severity_error, ''error''), (yang_severity_warning, ''warning'')] s of
        None \<Rightarrow> [] | Some v \<Rightarrow> v)"

definition needNodePath :: string where "needNodePath = []"
definition noYangPath :: string where "noYangPath = []"
definition needYangPath :: string where "needYangPath = []"

type_synonym yerrtag = nat
definition yang_operation_failed :: yerrtag where "yang_operation_failed = 0"
definition yang_data_missing :: yerrtag where "yang_data_missing = 1"
definition yang_bad_attribute :: yerrtag where "yang_bad_attribute = 2"

definition errtag_list :: "(string \<times> yerrtag) list" where
  "errtag_list =
     [(''operation-failed'', yang_operation_failed),
      (''data-missing'', yang_data_missing),
      (''bad-attribute'', yang_bad_attribute)]"

definition errtagmap :: "string \<rightharpoonup> yerrtag" where
  "errtagmap = map_of errtag_list"

definition yerrtag_String :: "yerrtag \<Rightarrow> string" where
  "yerrtag_String t = string_of_id errtag_list t"

type_synonym yerrapptagid = nat
definition data_not_unique :: yerrapptagid where "data_not_unique = 0"
definition too_many_elements :: yerrapptagid where "too_many_elements = 1"
definition too_few_elements :: yerrapptagid where "too_few_elements = 2"
definition must_violation :: yerrapptagid where "must_violation = 3"
definition instance_required :: yerrapptagid where "instance_required = 4"
definition missing_choice :: yerrapptagid where "missing_choice = 5"
definition missing_instance :: yerrapptagid where "missing_instance = 6"

definition yerrapptag_list :: "(string \<times> yerrapptagid) list" where
  "yerrapptag_list =
     [(''data-not-unique'', data_not_unique),
      (''too-many-elements'', too_many_elements),
      (''too-few-elements'', too_few_elements),
      (''must-violation'', must_violation),
      (''instance-required'', instance_required),
      (''missing-choice'', missing_choice),
      (''missing-instance'', missing_instance)]"

definition yerrapptagmap :: "string \<rightharpoonup> yerrapptagid" where
  "yerrapptagmap = map_of yerrapptag_list"

definition yerrapptagid_String :: "yerrapptagid \<Rightarrow> string" where
  "yerrapptagid_String t = string_of_id yerrapptag_list t"

named_theorems ytag_defs \<open>the YANG tag, app-tag and severity constants\<close>
declare yang_operation_failed_def [ytag_defs] yang_data_missing_def [ytag_defs]
  yang_bad_attribute_def [ytag_defs] data_not_unique_def [ytag_defs]
  too_many_elements_def [ytag_defs] too_few_elements_def [ytag_defs]
  must_violation_def [ytag_defs] instance_required_def [ytag_defs]
  missing_choice_def [ytag_defs] missing_instance_def [ytag_defs]
  yang_severity_error_def [ytag_defs] yang_severity_warning_def [ytag_defs]

type_synonym appTagMap = "yerrapptagid \<rightharpoonup> wrapper"

record yangErrTag =
  y_severity :: yerrseverity
  y_msg :: string
  y_apptag :: appTagMap

definition msg_yang_operation_failed :: string where
  "msg_yang_operation_failed = ''The requested operation failed.''"
definition msg_yang_data_missing :: string where
  "msg_yang_data_missing = ''Expected data is missing.''"
definition msg_yang_bad_attribute :: string where
  "msg_yang_bad_attribute = ''An attribute value is not correct; e.g., wrong type, out of range, pattern mismatch.''"

definition yangErrTable_list :: "(yerrtag \<times> yangErrTag) list" where
  "yangErrTable_list =
     [(yang_operation_failed,
       \<lparr>y_severity = yang_severity_error, y_msg = msg_yang_operation_failed,
         y_apptag = map_of [(data_not_unique, NonUniqueError),
                            (too_many_elements, TooManyElementsError),
                            (too_few_elements, TooFewElementsError),
                            (must_violation, MustViolationError)]\<rparr>),
      (yang_data_missing,
       \<lparr>y_severity = yang_severity_error, y_msg = msg_yang_data_missing,
         y_apptag = map_of [(instance_required, InstanceRequiredError),
                            (missing_choice, MissingChoiceError)]\<rparr>),
      (yang_bad_attribute,
       \<lparr>y_severity = yang_severity_error, y_msg = msg_yang_bad_attribute,
         y_apptag = map_of [(missing_instance, InsertFailedError)]\<rparr>)]"

definition yangErrTable :: "yerrtag \<rightharpoonup> yangErrTag" where
  "yangErrTable = map_of yangErrTable_list"

type_synonym yangErrInfoId = nat
definition non_unique_info :: yangErrInfoId where "non_unique_info = 0"
definition missing_choice_info :: yangErrInfoId where "missing_choice_info = 1"

definition yangErrInfoId_String :: "yangErrInfoId \<Rightarrow> string" where
  "yangErrInfoId_String i =
     (case map_of [(non_unique_info, ''non-unique''),
                   (missing_choice_info, ''missing-choice'')] i of
        None \<Rightarrow> [] | Some s \<Rightarrow> s)"

text \<open>The fourth string, \<open>yangPath\<close>, is a parameter of the source that its body never reads.\<close>
definition setYangError ::
  "MgmtError \<Rightarrow> yerrtag \<Rightarrow> string \<Rightarrow> string \<Rightarrow> string \<Rightarrow> MgmtErrorInfo option
     \<Rightarrow> error + MgmtError" where
  "setYangError e tag apptag path yangPath info =
     (case yangErrTable tag of
        None \<Rightarrow> Inl invalid_error_tag
      | Some yangErrTag \<Rightarrow>
          Inr (e\<lparr>Tag := yerrtag_String tag,
                 Typ := ''application'',
                 Severity := yerrseverity_String (y_severity yangErrTag),
                 Message := y_msg yangErrTag,
                 AppTag := apptag,
                 Path := path,
                 Info := (case info of None \<Rightarrow> Info e | Some i \<Rightarrow> i)\<rparr>))"

definition newYangError ::
  "yerrtag \<Rightarrow> string \<Rightarrow> string \<Rightarrow> string \<Rightarrow> MgmtErrorInfo option \<Rightarrow> error + MgmtError" where
  "newYangError tag apptag path yangPath info =
     setYangError newMgmtError tag apptag path yangPath info"

section \<open>Vendor catalog (vyerror.go)\<close>

type_synonym vyErrTag = nat
definition vyatta_operation_failed :: vyErrTag where "vyatta_operation_failed = 0"

definition vyErrTag_list :: "(string \<times> vyErrTag) list" where
  "vyErrTag_list = [(''operation-failed'', vyatta_operation_failed)]"

definition vyErrTagMap :: "string \<rightharpoonup> vyErrTag" where
  "vyErrTagMap = map_of vyErrTag_list"

definition vyErrTag_String :: "vyErrTag \<Rightarrow> string" where
  "vyErrTag_String t = string_of_id vyErrTag_list t"

type_synonym vyErrAppTagId = nat
definition exec_failed :: vyErrAppTagId where "exec_failed = 0"
definition path_ambig :: vyErrAppTagId where "path_ambig = 1"

definition vyErrAppTag_list :: "(string \<times> vyErrAppTagId) list" where
  "vyErrAppTag_list = [(''exec-failed'', exec_failed), (''path-ambiguous'', path_ambig)]"

definition vyErrAppTagMap :: "string \<rightharpoonup> vyErrAppTagId" where
  "vyErrAppTagMap = map_of vyErrAppTag_list"

definition vyErrAppTagId_String :: "vyErrAppTagId \<Rightarrow> string" where
  "vyErrAppTagId_String t = string_of_id vyErrAppTag_list t"

named_theorems vytag_defs \<open>the vendor tag and app-tag constants\<close>
declare vyatta_operation_failed_def [vytag_defs] exec_failed_def [vytag_defs]
  path_ambig_def [vytag_defs]

type_synonym vyAppTagMap = "vyErrAppTagId \<rightharpoonup> wrapper"

record vyError =
  vy_severity :: yerrseverity
  vy_msg :: string
  vy_apptag :: vyAppTagMap

definition vyErrTable :: "vyErrTag \<rightharpoonup> vyError" where
  "vyErrTable = map_of
     [(vyatta_operation_failed,
       \<lparr>vy_severity = yang_severity_error, vy_msg = msg_yang_operation_failed,
         vy_apptag = map_of [(exec_failed, ExecError), (path_ambig, PathAmbiguousError)]\<rparr>)]"

definition setVyattaError ::
  "MgmtError \<Rightarrow> vyErrTag \<Rightarrow> string \<Rightarrow> string \<Rightarrow> MgmtErrorInfo option \<Rightarrow> error + MgmtError" where
  "setVyattaError e tag apptag path info =
     (case vyErrTable tag of
        None \<Rightarrow> Inl invalid_error_tag
      | Some vyErr \<Rightarrow>
          Inr (e\<lparr>Tag := vyErrTag_String tag,
                 Typ := ''application'',
                 Severity := yerrseverity_String (vy_severity vyErr),
                 Message := vy_msg vyErr,
                 AppTag := apptag,
                 Path := path,
                 Info := (case info of None \<Rightarrow> Info e | Some i \<Rightarrow> i)\<rparr>))"

definition newVyattaError ::
  "vyErrTag \<Rightarrow> string \<Rightarrow> string \<Rightarrow> MgmtErrorInfo option \<Rightarrow> error + MgmtError" where
  "newVyattaError tag apptag path info = setVyattaError newMgmtError tag apptag path info"


section \<open>Wire values\<close>

text \<open>
  The values of encoding/json and encoding/xml are modelled as trees: a JSON text by the value it
  denotes (the fields of an object in the order they are written), an XML text by its elements.
  Where the source writes the punctuation of an object into a byte buffer itself, the model
  builds the object those bytes denote. Numbers and booleans are left out: no encoder of this
  package writes one.
\<close>
datatype json = JNull | JString string | JArray "json list" | JObject "(string \<times> json) list"

datatype xml = Element xml_Name "xml list" | CharData string

subsection \<open>Info-tag codec\<close>

text \<open>\<open>strings.Split\<close> for a separator of one character: every occurrence splits, and a
  string without the separator is returned whole, as the only piece.\<close>
fun strings_Split_from :: "string \<Rightarrow> char \<Rightarrow> string \<Rightarrow> string list" where
  "strings_Split_from acc sep [] = [rev acc]"
| "strings_Split_from acc sep (c # cs) =
     (if c = sep then rev acc # strings_Split_from [] sep cs
      else strings_Split_from (c # acc) sep cs)"

definition strings_Split :: "string \<Rightarrow> char \<Rightarrow> string list" where
  "strings_Split s sep = strings_Split_from [] sep s"

definition MgmtErrorInfoTag_tag :: "MgmtErrorInfoTag \<Rightarrow> string" where
  "MgmtErrorInfoTag_tag i =
     (if length (Space (XMLName i)) > 0
      then lookupModule (Space (XMLName i)) @ '':'' @ Local (XMLName i)
      else Local (XMLName i))"

text \<open>\<open>json.Marshal\<close> of a string does not fail, so neither does this method.\<close>
definition MgmtErrorInfoTag_MarshalJSON :: "MgmtErrorInfoTag \<Rightarrow> json" where
  "MgmtErrorInfoTag_MarshalJSON i = JObject [(MgmtErrorInfoTag_tag i, JString (Value i))]"

text \<open>\<open>json.Unmarshal\<close> into a \<open>map[string]string\<close>: an object whose values are strings (a
  \<open>null\<close> value leaves the empty string); \<open>null\<close> itself leaves the map nil. A later occurrence of
  a key replaces an earlier one.\<close>
fun decode_string_fields :: "(string \<times> json) list \<Rightarrow> error + (string \<times> string) list" where
  "decode_string_fields [] = Inr []"
| "decode_string_fields ((k, v) # kvs) =
     (case (case v of JString s \<Rightarrow> Inr s | JNull \<Rightarrow> Inr [] | _ \<Rightarrow> Inl UnmarshalTypeError) of
        Inl x \<Rightarrow> Inl x
      | Inr s \<Rightarrow> (case decode_string_fields kvs of
                   Inl x \<Rightarrow> Inl x
                 | Inr r \<Rightarrow> Inr ((k, s) # r)))"

fun decode_string_map :: "json \<Rightarrow> error + (string \<times> string) list" where
  "decode_string_map JNull = Inr []"
| "decode_string_map (JObject kvs) = decode_string_fields kvs"
| "decode_string_map _ = Inl UnmarshalTypeError"

text \<open>The receiver \<open>i\<close> keeps every field the method does not assign: with other than two
  pieces the namespace is left as it was.\<close>
definition MgmtErrorInfoTag_UnmarshalJSON ::
  "MgmtErrorInfoTag \<Rightarrow> json \<Rightarrow> error + MgmtErrorInfoTag" where
  "MgmtErrorInfoTag_UnmarshalJSON i v =
     (case decode_string_map v of
        Inl x \<Rightarrow> Inl x
      | Inr obj \<Rightarrow>
          (case remdups (map fst obj) of
             [k] \<Rightarrow>
               (case strings_Split k (CHR '':'') of
                  [] \<Rightarrow> Inl panic_index_out_of_range
                | [s0, s1] \<Rightarrow>
                    Inr (i\<lparr>XMLName := \<lparr>Space = lookupNamespace s0, Local = s1\<rparr>,
                           Value := snd (last obj)\<rparr>)
                | s0 # _ \<Rightarrow>
                    Inr (i\<lparr>XMLName := (XMLName i)\<lparr>Local := s0\<rparr>, Value := snd (last obj)\<rparr>))
           | _ \<Rightarrow> Inl malformed_error_info_tag))"

subsection \<open>The record on the wire\<close>

definition omitempty :: "string \<Rightarrow> string \<Rightarrow> (string \<times> json) list" where
  "omitempty key s = (if s = [] then [] else [(key, JString s)])"

text \<open>The struct tags of \<open>MgmtError\<close>: \<open>XMLName\<close> is \<open>json:"-"\<close>, the first three fields are
  always written, the others are \<open>omitempty\<close>.\<close>
definition MgmtError_MarshalJSON :: "MgmtError \<Rightarrow> json" where
  "MgmtError_MarshalJSON e =
     JObject ([(''error-type'', JString (Typ e)),
               (''error-tag'', JString (Tag e)),
               (''error-severity'', JString (Severity e))]
              @ omitempty ''error-app-tag'' (AppTag e)
              @ omitempty ''error-path'' (Path e)
              @ omitempty ''error-message'' (Message e)
              @ (if Info e = [] then []
                 else [(''error-info'', JArray (map MgmtErrorInfoTag_MarshalJSON (Info e)))]))"

fun decode_infos :: "json list \<Rightarrow> error + MgmtErrorInfo" where
  "decode_infos [] = Inr []"
| "decode_infos (j # js) =
     (case MgmtErrorInfoTag_UnmarshalJSON zero_MgmtErrorInfoTag j of
        Inl x \<Rightarrow> Inl x
      | Inr i \<Rightarrow> (case decode_infos js of Inl x \<Rightarrow> Inl x | Inr r \<Rightarrow> Inr (i # r)))"

definition decode_string_field ::
  "json \<Rightarrow> (string \<Rightarrow> MgmtError) \<Rightarrow> MgmtError \<Rightarrow> error + MgmtError" where
  "decode_string_field v upd e =
     (case v of JString s \<Rightarrow> Inr (upd s) | JNull \<Rightarrow> Inr e | _ \<Rightarrow> Inl UnmarshalTypeError)"

text \<open>One key of the object, decoded into the field whose tag it is; another key is skipped.
  The keys are compared as the encoder writes them, and a text that fails to decode is reported
  with the first failure in the order of the text.\<close>
definition decode_field :: "MgmtError \<Rightarrow> string \<Rightarrow> json \<Rightarrow> error + MgmtError" where
  "decode_field e k v =
     (if k = ''error-type'' then decode_string_field v (\<lambda>s. e\<lparr>Typ := s\<rparr>) e
      else if k = ''error-tag'' then decode_string_field v (\<lambda>s. e\<lparr>Tag := s\<rparr>) e
      else if k = ''error-severity'' then decode_string_field v (\<lambda>s. e\<lparr>Severity := s\<rparr>) e
      else if k = ''error-app-tag'' then decode_string_field v (\<lambda>s. e\<lparr>AppTag := s\<rparr>) e
      else if k = ''error-path'' then decode_string_field v (\<lambda>s. e\<lparr>Path := s\<rparr>) e
      else if k = ''error-message'' then decode_string_field v (\<lambda>s. e\<lparr>Message := s\<rparr>) e
      else if k = ''error-info'' then
        (case v of
           JArray js \<Rightarrow> (case decode_infos js of Inl x \<Rightarrow> Inl x | Inr is \<Rightarrow> Inr (e\<lparr>Info := is\<rparr>))
         | JNull \<Rightarrow> Inr (e\<lparr>Info := []\<rparr>)
         | _ \<Rightarrow> Inl UnmarshalTypeError)
      else Inr e)"

fun decode_fields :: "MgmtError \<Rightarrow> (string \<times> json) list \<Rightarrow> error + MgmtError" where
  "decode_fields e [] = Inr e"
| "decode_fields e ((k, v) # kvs) =
     (case decode_field e k v of Inl x \<Rightarrow> Inl x | Inr e' \<Rightarrow> decode_fields e' kvs)"

text \<open>\<open>json.Unmarshal(value, e)\<close> for a record \<open>e\<close> whose \<open>Info\<close> is nil, as it is at every call
  of the source (a fresh \<open>newMgmtError()\<close>, or the zero struct of a decoded list).\<close>
fun MgmtError_UnmarshalJSON :: "MgmtError \<Rightarrow> json \<Rightarrow> error + MgmtError" where
  "MgmtError_UnmarshalJSON e JNull = Inr e"
| "MgmtError_UnmarshalJSON e (JObject kvs) = decode_fields e kvs"
| "MgmtError_UnmarshalJSON e _ = Inl UnmarshalTypeError"

text \<open>The \<open>UnmarshalJSON\<close> of every typed wrapper: a fresh record, then the decoder.\<close>
definition wrapper_UnmarshalJSON :: "json \<Rightarrow> error + MgmtError" where
  "wrapper_UnmarshalJSON value = MgmtError_UnmarshalJSON newMgmtError value"

text \<open>The element name of encoding/xml: the \<open>XMLName\<close> field when its local part is set, the
  name of the Go type otherwise.\<close>
definition start_name :: "xml_Name \<Rightarrow> string \<Rightarrow> xml_Name" where
  "start_name n type_name = (if Local n \<noteq> [] then n else \<lparr>Space = [], Local = type_name\<rparr>)"

definition chardata :: "string \<Rightarrow> xml list" where
  "chardata s = (if s = [] then [] else [CharData s])"

definition MgmtErrorInfoTag_xml :: "MgmtErrorInfoTag \<Rightarrow> xml" where
  "MgmtErrorInfoTag_xml i =
     Element (start_name (XMLName i) ''MgmtErrorInfoTag'') (chardata (Value i))"

definition MgmtErrorInfo_MarshalXML :: "MgmtErrorInfo \<Rightarrow> xml" where
  "MgmtErrorInfo_MarshalXML e =
     Element \<lparr>Space = [], Local = ''error-info''\<rparr> (map MgmtErrorInfoTag_xml e)"

definition field_xml :: "string \<Rightarrow> string \<Rightarrow> xml" where
  "field_xml name s = Element \<lparr>Space = [], Local = name\<rparr> (chardata s)"

definition omitempty_xml :: "string \<Rightarrow> string \<Rightarrow> xml list" where
  "omitempty_xml name s = (if s = [] then [] else [field_xml name s])"

definition MgmtError_xml :: "MgmtError \<Rightarrow> xml" where
  "MgmtError_xml e =
     Element (start_name (XMLName e) ''MgmtError'')
       ([field_xml ''error-type'' (Typ e),
         field_xml ''error-tag'' (Tag e),
         field_xml ''error-severity'' (Severity e)]
        @ omitempty_xml ''error-app-tag'' (AppTag e)
        @ omitempty_xml ''error-path'' (Path e)
        @ omitempty_xml ''error-message'' (Message e)
        @ (if Info e = [] then [] else [MgmtErrorInfo_MarshalXML (Info e)]))"

section \<open>Error values\<close>

text \<open>
  A value of the Go interface \<open>error\<close> as this package sees it: nil, one of the typed wrappers
  around a record, a bare \<open>*MgmtError\<close>, or a value of a type defined elsewhere. Of a foreign
  value the package uses only which of the interfaces \<open>json.Marshaler\<close>, \<open>xml.Marshaler\<close> and
  \<open>Formattable\<close> its type implements, what \<open>GetMessage()\<close>, \<open>GetPath()\<close> and \<open>Error()\<close> return,
  and what the two encoders make of it.
\<close>
record foreign =
  is_json_Marshaler :: bool
  is_xml_Marshaler :: bool
  as_Formattable :: "(string \<times> string) option"
  Error_text :: string
  json_Marshal_result :: "error + json"
  xml_Encode_result :: "error + xml list"

datatype error_value =
    nil_error
  | Typed wrapper MgmtError
  | BareRecord MgmtError
  | Foreign foreign

text \<open>Method sets. Every wrapper has \<open>MarshalXML\<close> (and \<open>UnmarshalJSON\<close>, but no \<open>MarshalJSON\<close>)
  and inherits the \<open>Formattable\<close> methods of the embedded record; \<open>*MgmtError\<close> has neither
  marshalling method.\<close>
fun implements_json_Marshaler :: "error_value \<Rightarrow> bool" where
  "implements_json_Marshaler (Foreign f) = is_json_Marshaler f"
| "implements_json_Marshaler _ = False"

fun implements_xml_Marshaler :: "error_value \<Rightarrow> bool" where
  "implements_xml_Marshaler (Typed w r) = True"
| "implements_xml_Marshaler (Foreign f) = is_xml_Marshaler f"
| "implements_xml_Marshaler _ = False"

fun implements_Formattable :: "error_value \<Rightarrow> bool" where
  "implements_Formattable (Typed w r) = True"
| "implements_Formattable (BareRecord r) = True"
| "implements_Formattable (Foreign f) = (as_Formattable f \<noteq> None)"
| "implements_Formattable nil_error = False"

text \<open>\<open>callCreate\<close>: every catalog entry is a function of one argument and one result that is
  an \<open>error\<close>, so the reflective call returns what the function returns.\<close>
definition callCreate :: "wrapper \<Rightarrow> MgmtError \<Rightarrow> error_value" where
  "callCreate fn err = Typed fn err"

text \<open>A constructor applied to the result of a \<open>new...Error\<close> that may have panicked.\<close>
definition create :: "wrapper \<Rightarrow> error + MgmtError \<Rightarrow> error + error_value" where
  "create w r = (case r of Inl x \<Rightarrow> Inl x | Inr e \<Rightarrow> Inr (Typed w e))"


section \<open>Reverse classification\<close>

text \<open>The three lookups return \<open>nil\<close> (here \<open>None\<close>) when a step of the lookup misses.\<close>
definition getVyattaError :: "MgmtError \<Rightarrow> error_value option" where
  "getVyattaError err =
     (case vyErrTagMap (Tag err) of
        None \<Rightarrow> None
      | Some tag \<Rightarrow>
          (case vyErrTable tag of
             None \<Rightarrow> None
           | Some errtag \<Rightarrow>
               (case vyErrAppTagMap (AppTag err) of
                  None \<Rightarrow> None
                | Some apptag \<Rightarrow>
                    (case vy_apptag errtag apptag of
                       None \<Rightarrow> None
                     | Some fn \<Rightarrow> Some (callCreate fn err)))))"

definition getYangError :: "MgmtError \<Rightarrow> error_value option" where
  "getYangError err =
     (case errtagmap (Tag err) of
        None \<Rightarrow> None
      | Some tag \<Rightarrow>
          (case yangErrTable tag of
             None \<Rightarrow> None
           | Some errtag \<Rightarrow>
               (case yerrapptagmap (AppTag err) of
                  None \<Rightarrow> None
                | Some apptag \<Rightarrow>
                    (case y_apptag errtag apptag of
                       None \<Rightarrow> None
                     | Some fn \<Rightarrow> Some (callCreate fn err)))))"

definition getNetconfError :: "MgmtError \<Rightarrow> error_value option" where
  "getNetconfError err =
     (case ncerrtagmap (Tag err) of
        None \<Rightarrow> None
      | Some tag \<Rightarrow>
          (case ncErrTable tag of
             None \<Rightarrow> None
           | Some ncErrTag \<Rightarrow>
               (case errtypemap (Typ err) of
                  None \<Rightarrow> None
                | Some errTypeId \<Rightarrow>
                    (case nc_typ ncErrTag errTypeId of
                       None \<Rightarrow> None
                     | Some fn \<Rightarrow> Some (callCreate fn err)))))"

section \<open>Public constructors\<close>

text \<open>The path helpers of the package \<open>pathutil\<close> and the sort of the package \<open>natsort\<close> belong
  to another repository; the functions that call them take them as parameters.\<close>

definition NewOperationFailedApplicationError :: "error + error_value" where
  "NewOperationFailedApplicationError =
     create OperationFailedApplicationError
       (newOperationFailedError (errtype_String application))"

definition NewOperationFailedProtocolError :: "error + error_value" where
  "NewOperationFailedProtocolError =
     create OperationFailedProtocolError (newOperationFailedError (errtype_String protocol))"

definition NewOperationFailedRpcError :: "error + error_value" where
  "NewOperationFailedRpcError =
     create OperationFailedRpcError (newOperationFailedError (errtype_String rpc))"

definition NewMissingAttrRpcError :: "string \<Rightarrow> string \<Rightarrow> error + error_value" where
  "NewMissingAttrRpcError badAttr badElem =
     create MissingAttrRpcError
       (newAttrError missing_attribute (errtype_String rpc) badAttr badElem)"

definition NewMissingElementProtocolError :: "string \<Rightarrow> error + error_value" where
  "NewMissingElementProtocolError badElem =
     create MissingElementProtocolError
       (newMissingElemError (errtype_String protocol) badElem)"

definition NewMissingElementApplicationError :: "string \<Rightarrow> error + error_value" where
  "NewMissingElementApplicationError badElem =
     create MissingElementApplicationError
       (newMissingElemError (errtype_String application) badElem)"

definition NewUnknownElementProtocolError :: "string \<Rightarrow> error + error_value" where
  "NewUnknownElementProtocolError badElem =
     create UnknownElementProtocolError
       (newUnknownElemError (errtype_String protocol) badElem)"

definition NewUnknownElementApplicationError :: "string \<Rightarrow> error + error_value" where
  "NewUnknownElementApplicationError badElem =
     create UnknownElementApplicationError
       (newUnknownElemError (errtype_String application) badElem)"

definition NewLockDeniedError :: "string \<Rightarrow> error + error_value" where
  "NewLockDeniedError sess =
     create LockDeniedError
       (newNcError lock_denied (errtype_String protocol) [] [] (Some (newLockDeniedInfo sess)))"

definition NewMalformedMessageError :: "error + error_value" where
  "NewMalformedMessageError =
     create MalformedMessageError (newNcError malformed_message ''rpc'' [] [] None)"

definition NewNonUniqueError :: "string list \<Rightarrow> error + error_value" where
  "NewNonUniqueError paths =
     create NonUniqueError
       (newYangError yang_operation_failed (yerrapptagid_String data_not_unique)
          needNodePath noYangPath
          (Some (map (\<lambda>p. \<lparr>XMLName = \<lparr>Space = yang_namespace,
                                        Local = yangErrInfoId_String non_unique_info\<rparr>,
                             Value = p\<rparr>) paths)))"

definition NewTooManyElementsError :: "string \<Rightarrow> error + error_value" where
  "NewTooManyElementsError path =
     create TooManyElementsError
       (newYangError yang_operation_failed (yerrapptagid_String too_many_elements)
          path noYangPath None)"

definition NewTooFewElementsError :: "string \<Rightarrow> error + error_value" where
  "NewTooFewElementsError path =
     create TooFewElementsError
       (newYangError yang_operation_failed (yerrapptagid_String too_few_elements)
          path noYangPath None)"

definition NewMustViolationError :: "error + error_value" where
  "NewMustViolationError =
     create MustViolationError
       (newYangError yang_operation_failed (yerrapptagid_String must_violation)
          needNodePath noYangPath None)"

definition NewInstanceRequiredError :: "string \<Rightarrow> error + error_value" where
  "NewInstanceRequiredError path =
     create InstanceRequiredError
       (newYangError yang_data_missing (yerrapptagid_String instance_required)
          path needYangPath None)"

definition NewLeafrefMismatchError :: "string \<Rightarrow> string \<Rightarrow> error + error_value" where
  "NewLeafrefMismatchError path lrefPath =
     create LeafrefMismatchError
       (newYangError yang_data_missing (yerrapptagid_String instance_required)
          path lrefPath None)"

definition NewMissingChoiceError :: "string \<Rightarrow> string \<Rightarrow> error + error_value" where
  "NewMissingChoiceError path name =
     create MissingChoiceError
       (newYangError yang_operation_failed (yerrapptagid_String missing_choice)
          path needYangPath
          (Some [\<lparr>XMLName = \<lparr>Space = yang_namespace,
                              Local = yangErrInfoId_String missing_choice_info\<rparr>,
                   Value = name\<rparr>]))"

definition NewInsertFailedError :: "error + error_value" where
  "NewInsertFailedError =
     create InsertFailedError
       (newYangError yang_bad_attribute (yerrapptagid_String missing_instance)
          needNodePath noYangPath None)"

text \<open>\<open>err.Message = out\<close> after the record is built.\<close>
definition NewExecError ::
  "(string list \<Rightarrow> string) \<Rightarrow> string list \<Rightarrow> string \<Rightarrow> error + error_value" where
  "NewExecError Pathstr path out =
     (case newVyattaError vyatta_operation_failed (vyErrAppTagId_String exec_failed)
             (Pathstr path) None of
        Inl x \<Rightarrow> Inl x
      | Inr err \<Rightarrow> Inr (Typed ExecError (err\<lparr>Message := out\<rparr>)))"

text \<open>The Go map \<open>matches\<close> is given as its pairs in the order in which the \<open>range\<close> of this run
  visits them: the keys are distinct, the order is not determined.\<close>
definition NewPathAmbiguousError ::
  "(string list \<Rightarrow> string) \<Rightarrow> string list \<Rightarrow> (string \<times> string) list
     \<Rightarrow> error + error_value" where
  "NewPathAmbiguousError Pathstr path matches =
     create PathAmbiguousError
       (newVyattaError vyatta_operation_failed (vyErrAppTagId_String path_ambig)
          (Pathstr path)
          (Some (map (\<lambda>(k, v). NewMgmtErrorInfoTag VyattaNamespace k v) matches)))"

section \<open>Textual rendering\<close>

text \<open>
  \<open>strings.Title\<close>: a letter that follows a separator (or starts the string) is mapped to
  title case. The model is exact on ASCII; a byte above \<open>0x7F\<close> is copied as it is and does not
  count as a separator.
\<close>
definition isSeparator :: "char \<Rightarrow> bool" where
  "isSeparator r =
     (let n = (of_char r :: nat) in
      if n \<le> 127 then
        \<not> ((48 \<le> n \<and> n \<le> 57) \<or> (97 \<le> n \<and> n \<le> 122) \<or> (65 \<le> n \<and> n \<le> 90) \<or> n = 95)
      else False)"

definition ToTitle :: "char \<Rightarrow> char" where
  "ToTitle r =
     (let n = (of_char r :: nat) in if 97 \<le> n \<and> n \<le> 122 then char_of (n - 32) else r)"

fun Title_from :: "char \<Rightarrow> string \<Rightarrow> string" where
  "Title_from prev [] = []"
| "Title_from prev (r # rs) = (if isSeparator prev then ToTitle r else r) # Title_from r rs"

definition Title :: "string \<Rightarrow> string" where
  "Title s = Title_from (CHR '' '') s"

definition MgmtError_Error :: "MgmtError \<Rightarrow> string" where
  "MgmtError_Error e =
     Title (Severity e) @ error_msg_separator
     @ (if Path e \<noteq> [] then Path e @ error_msg_separator else [])
     @ (if Message e \<noteq> [] then Message e else [])"

text \<open>\<open>e.Info[0]\<close> on an empty slice is a run-time panic.\<close>
definition missingElemErrorString :: "MgmtError \<Rightarrow> error + string" where
  "missingElemErrorString e =
     (case Info e of
        [] \<Rightarrow> Inl panic_index_out_of_range
      | i # _ \<Rightarrow>
          Inr (Title (Severity e) @ error_msg_separator
               @ (if Path e \<noteq> [] then Path e else [])
               @ ''/'' @ Value i
               @ (if Message e \<noteq> [] then error_msg_separator @ Message e else [])))"

definition unknownElemErrorString :: "MgmtError \<Rightarrow> error + string" where
  "unknownElemErrorString e =
     (case Info e of
        [] \<Rightarrow> Inl panic_index_out_of_range
      | i # _ \<Rightarrow>
          Inr (Title (Severity e) @ error_msg_separator
               @ (if Path e \<noteq> [] then Path e else [])
               @ ''/'' @ Value i
               @ (if Message e \<noteq> [] then error_msg_separator @ Message e else [])))"

fun strings_Join :: "string list \<Rightarrow> string \<Rightarrow> string" where
  "strings_Join [] sep = []"
| "strings_Join [x] sep = x"
| "strings_Join (x # xs) sep = x @ sep @ strings_Join xs sep"

text \<open>\<open>fmt.Sprintf("%s", path)\<close> of a slice prints its elements between brackets.\<close>
definition errpath :: "string list \<Rightarrow> string" where
  "errpath path =
     (if length path < 2 then ''['' @ strings_Join path '' '' @ '']''
      else strings_Join (butlast path) '' '' @ '' ['' @ last path @ '']'')"

text \<open>\<open>GetMessage\<close> of both unknown-element wrappers.\<close>
definition UnknownElementError_GetMessage ::
  "(string \<Rightarrow> string list) \<Rightarrow> MgmtError \<Rightarrow> error + string" where
  "UnknownElementError_GetMessage Makepath e =
     (case Info e of
        [] \<Rightarrow> Inl panic_index_out_of_range
      | i # _ \<Rightarrow> Inr (errpath (Makepath (Path e @ ''/'' @ Value i)) @ '' is not valid''))"

fun strings_TrimPrefix :: "string \<Rightarrow> string \<Rightarrow> string" where
  "strings_TrimPrefix s prefix =
     (if take (length prefix) s = prefix then drop (length prefix) s else s)"

definition NonUniqueError_Error :: "MgmtError \<Rightarrow> string" where
  "NonUniqueError_Error e =
     (if length (Info e) < 2 then MgmtError_Error e
      else Title (Severity e) @ error_msg_separator @ Path e @ error_msg_separator
           @ ''Non-unique paths ''
           @ strings_Join (map (\<lambda>p. strings_TrimPrefix (Value p) (Path e @ ''/'')) (Info e))
               '', '')"

definition PathAmbiguousError_Error ::
  "(string list \<Rightarrow> string list) \<Rightarrow> MgmtError \<Rightarrow> string" where
  "PathAmbiguousError_Error natsort_Sort e =
     (let mlist = natsort_Sort (map (\<lambda>t. Local (XMLName t)) (Info e)) in
      Title (Severity e) @ error_msg_separator
      @ (if length (Path e) = 0 then ''Ambiguous command''
         else Path e @ error_msg_separator @ ''Ambiguous path'')
      @ '', could be one of: ''
      @ strings_Join mlist '', '')"


definition wrapper_Error ::
  "(string list \<Rightarrow> string list) \<Rightarrow> wrapper \<Rightarrow> MgmtError \<Rightarrow> error + string" where
  "wrapper_Error natsort_Sort w e =
     (if w = MissingElementProtocolError \<or> w = MissingElementApplicationError
        then missingElemErrorString e
      else if w = UnknownElementProtocolError \<or> w = UnknownElementApplicationError
        then unknownElemErrorString e
      else if w = NonUniqueError then Inr (NonUniqueError_Error e)
      else if w = PathAmbiguousError then Inr (PathAmbiguousError_Error natsort_Sort e)
      else Inr (MgmtError_Error e))"

definition error_value_Error ::
  "(string list \<Rightarrow> string list) \<Rightarrow> error_value \<Rightarrow> error + string" where
  "error_value_Error natsort_Sort v =
     (case v of
        nil_error \<Rightarrow> Inl panic_nil_dereference
      | Typed w e \<Rightarrow> wrapper_Error natsort_Sort w e
      | BareRecord e \<Rightarrow> Inr (MgmtError_Error e)
      | Foreign f \<Rightarrow> Inr (Error_text f))"


section \<open>The error list\<close>

type_synonym MgmtErrorList = "error_value list"

definition update_record :: "(MgmtError \<Rightarrow> MgmtError) \<Rightarrow> error_value \<Rightarrow> error_value" where
  "update_record f v =
     (case v of Typed w e \<Rightarrow> Typed w (f e) | BareRecord e \<Rightarrow> BareRecord (f e) | _ \<Rightarrow> v)"

text \<open>
  The type switch of \<open>mkMgmtError\<close>, by the dynamic type of the value: a wrapper is an
  \<open>xml.Marshaler\<close>; a bare \<open>*MgmtError\<close> is neither marshaller but is \<open>Formattable\<close>; a foreign
  value is tested on its interfaces in the order of the cases. In the default case the generic
  record is built before \<open>e.Error()\<close> is called, which panics on a nil interface.
\<close>
definition mkMgmtError :: "error_value \<Rightarrow> error + error_value" where
  "mkMgmtError e =
     (case e of
        Typed w r \<Rightarrow> Inr e
      | BareRecord r \<Rightarrow>
          (case NewOperationFailedApplicationError of
             Inl x \<Rightarrow> Inl x
           | Inr err \<Rightarrow> Inr (update_record (\<lambda>m. m\<lparr>Message := Message r, Path := Path r\<rparr>) err))
      | Foreign f \<Rightarrow>
          (if is_json_Marshaler f \<or> is_xml_Marshaler f then Inr e
           else (case as_Formattable f of
                   Some (msg, path) \<Rightarrow>
                     (case NewOperationFailedApplicationError of
                        Inl x \<Rightarrow> Inl x
                      | Inr err \<Rightarrow>
                          Inr (update_record (\<lambda>m. m\<lparr>Message := msg, Path := path\<rparr>) err))
                 | None \<Rightarrow>
                     (case NewOperationFailedApplicationError of
                        Inl x \<Rightarrow> Inl x
                      | Inr err \<Rightarrow>
                          Inr (update_record (\<lambda>m. m\<lparr>Message := Error_text f\<rparr>) err))))
      | nil_error \<Rightarrow>
          (case NewOperationFailedApplicationError of
             Inl x \<Rightarrow> Inl x
           | Inr err \<Rightarrow> Inl panic_nil_dereference))"

fun MgmtErrorListAppend :: "MgmtErrorList \<Rightarrow> error_value list \<Rightarrow> error + MgmtErrorList" where
  "MgmtErrorListAppend e [] = Inr e"
| "MgmtErrorListAppend e (err # errs) =
     (case mkMgmtError err of
        Inl x \<Rightarrow> Inl x
      | Inr m \<Rightarrow> MgmtErrorListAppend (e @ [m]) errs)"

text \<open>What \<open>json.Marshal\<close> and \<open>xml.Encoder.Encode\<close> make of a member: the fields of the
  embedded record are promoted to the wrapper, and \<open>MarshalXML\<close> of a wrapper encodes the record;
  a nil interface is \<open>null\<close> in JSON and nothing in XML.\<close>
definition json_Marshal :: "error_value \<Rightarrow> error + json" where
  "json_Marshal v =
     (case v of
        nil_error \<Rightarrow> Inr JNull
      | Typed w e \<Rightarrow> Inr (MgmtError_MarshalJSON e)
      | BareRecord e \<Rightarrow> Inr (MgmtError_MarshalJSON e)
      | Foreign f \<Rightarrow> json_Marshal_result f)"

definition xml_Encode :: "error_value \<Rightarrow> error + xml list" where
  "xml_Encode v =
     (case v of
        nil_error \<Rightarrow> Inr []
      | Typed w e \<Rightarrow> Inr [MgmtError_xml e]
      | BareRecord e \<Rightarrow> Inr [MgmtError_xml e]
      | Foreign f \<Rightarrow> xml_Encode_result f)"

text \<open>The loop of \<open>MarshalJSON\<close>: the members in order, separated by commas, up to the first
  member that fails.\<close>
fun MarshalJSON_members :: "error_value list \<Rightarrow> error + json list" where
  "MarshalJSON_members [] = Inr []"
| "MarshalJSON_members (err # errs) =
     (case json_Marshal err of
        Inl x \<Rightarrow> Inl x
      | Inr b \<Rightarrow> (case MarshalJSON_members errs of Inl x \<Rightarrow> Inl x | Inr bs \<Rightarrow> Inr (b # bs)))"

definition MgmtErrorList_MarshalJSON :: "MgmtErrorList \<Rightarrow> error + json" where
  "MgmtErrorList_MarshalJSON e =
     (case MarshalJSON_members e of
        Inl x \<Rightarrow> Inl x
      | Inr out \<Rightarrow> Inr (JObject [(''error-list'', JArray out)]))"

text \<open>\<open>MarshalXML\<close> never writes the start element it is given: the output is what the
  members write, one after the other.\<close>
fun MgmtErrorList_MarshalXML :: "MgmtErrorList \<Rightarrow> error + xml list" where
  "MgmtErrorList_MarshalXML [] = Inr []"
| "MgmtErrorList_MarshalXML (err # errs) =
     (case xml_Encode err of
        Inl x \<Rightarrow> Inl x
      | Inr ts \<Rightarrow> (case MgmtErrorList_MarshalXML errs of
                     Inl x \<Rightarrow> Inl x
                   | Inr r \<Rightarrow> Inr (ts @ r)))"

text \<open>The anonymous struct of \<open>UnmarshalJSON\<close>, a slice of pointers to records under the key
  \<open>error-list\<close>: a \<open>null\<close> element is a nil pointer, another element a record decoded into a
  zero struct.\<close>
fun decode_error_list :: "json list \<Rightarrow> error + MgmtError option list" where
  "decode_error_list [] = Inr []"
| "decode_error_list (j # js) =
     (case (case j of JNull \<Rightarrow> Inr None
                    | _ \<Rightarrow> (case MgmtError_UnmarshalJSON zero_MgmtError j of
                              Inl x \<Rightarrow> Inl x | Inr e \<Rightarrow> Inr (Some e))) of
        Inl x \<Rightarrow> Inl x
      | Inr p \<Rightarrow> (case decode_error_list js of Inl x \<Rightarrow> Inl x | Inr ps \<Rightarrow> Inr (p # ps)))"

fun decode_errs_fields ::
  "MgmtError option list \<Rightarrow> (string \<times> json) list \<Rightarrow> error + MgmtError option list" where
  "decode_errs_fields acc [] = Inr acc"
| "decode_errs_fields acc ((k, v) # kvs) =
     (if k = ''error-list'' then
        (case v of
           JArray js \<Rightarrow> (case decode_error_list js of
                           Inl x \<Rightarrow> Inl x
                         | Inr ps \<Rightarrow> decode_errs_fields ps kvs)
         | JNull \<Rightarrow> decode_errs_fields [] kvs
         | _ \<Rightarrow> Inl UnmarshalTypeError)
      else decode_errs_fields acc kvs)"

fun decode_errs :: "json \<Rightarrow> error + MgmtError option list" where
  "decode_errs JNull = Inr []"
| "decode_errs (JObject kvs) = decode_errs_fields [] kvs"
| "decode_errs _ = Inl UnmarshalTypeError"

text \<open>The body of the loop of \<open>UnmarshalJSON\<close>: the vendor catalog first, then the YANG
  catalog, the base-protocol catalog last, the record itself when none knows it.\<close>
definition classify :: "MgmtError \<Rightarrow> error_value" where
  "classify err =
     (case getVyattaError err of
        Some vyerr \<Rightarrow> vyerr
      | None \<Rightarrow>
          (case getYangError err of
             Some yerr \<Rightarrow> yerr
           | None \<Rightarrow>
               (case getNetconfError err of
                  Some ncerr \<Rightarrow> ncerr
                | None \<Rightarrow> BareRecord err)))"

fun UnmarshalJSON_loop :: "MgmtErrorList \<Rightarrow> MgmtError option list \<Rightarrow> error + MgmtErrorList" where
  "UnmarshalJSON_loop e [] = Inr e"
| "UnmarshalJSON_loop e (None # rest) = Inl panic_nil_dereference"
| "UnmarshalJSON_loop e (Some err # rest) =
     (case MgmtErrorListAppend e [classify (setXMLName err)] of
        Inl x \<Rightarrow> Inl x
      | Inr e' \<Rightarrow> UnmarshalJSON_loop e' rest)"

definition MgmtErrorList_UnmarshalJSON :: "json \<Rightarrow> error + MgmtErrorList" where
  "MgmtErrorList_UnmarshalJSON value =
     (case decode_errs value of
        Inl x \<Rightarrow> Inl x
      | Inr errs \<Rightarrow> UnmarshalJSON_loop [] errs)"


section \<open>Vocabulary of the stated properties\<close>


text \<open>The name of an element; character data has none.\<close>
fun element_name :: "xml \<Rightarrow> xml_Name option" where
  "element_name (Element n cs) = Some n"
| "element_name (CharData s) = None"


text \<open>The info tags that the JSON codec gives back as they were: no colon in the local
  name, and a namespace that is empty, or one of the three of the table, or a string without a
  colon that is not one of the three module names.\<close>
definition tag_survives :: "MgmtErrorInfoTag \<Rightarrow> bool" where
  "tag_survives i \<longleftrightarrow>
     CHR '':'' \<notin> set (Local (XMLName i))
     \<and> (Space (XMLName i) = []
        \<or> Space (XMLName i) \<in> {netconf_namespace, yang_namespace, VyattaNamespace}
        \<or> (CHR '':'' \<notin> set (Space (XMLName i))
           \<and> Space (XMLName i) \<notin> {netconf_module, yang_module, vyattaModule}))"

section \<open>Evaluating the catalogs\<close>

lemmas nc_tables = ncErrTable_def ncErrTable_list_def nctag_defs ncerrtag_String_def
  ncerrtag_list_def ncerrtagmap_def string_of_id_def ncerrseverity_String_def
  nc_severity_error_def errtypemap_def

lemmas yang_tables = yangErrTable_def yangErrTable_list_def ytag_defs yerrtag_String_def
  errtag_list_def errtagmap_def yerrapptagmap_def yerrapptag_list_def yerrapptagid_String_def
  string_of_id_def yerrseverity_String_def

lemmas vy_tables = vyErrTable_def vytag_defs vyErrTag_String_def vyErrTag_list_def
  vyErrTagMap_def vyErrAppTagMap_def vyErrAppTag_list_def vyErrAppTagId_String_def
  string_of_id_def yerrseverity_String_def yang_severity_error_def

lemmas new_record = newMgmtError_def setXMLName_def zero_MgmtError_def

lemma NewOperationFailedApplicationError_eq:
  "NewOperationFailedApplicationError =
     Inr (Typed OperationFailedApplicationError
            \<lparr>XMLName = \<lparr>Space = netconf_namespace, Local = ''rpc-error''\<rparr>,
             Typ = ''application'', Tag = ''operation-failed'', Severity = ''error'',
             AppTag = [], Path = [], Message = msg_nc_operation_failed, Info = []\<rparr>)"
  by (simp add: NewOperationFailedApplicationError_def create_def newOperationFailedError_def
      newNcError_def setNcError_def nc_tables new_record)

lemma ncErrTable_None_iff: "ncErrTable tag = None \<longleftrightarrow> 19 \<le> tag"
proof -
  have "dom ncErrTable = {..<19}"
    unfolding ncErrTable_def ncErrTable_list_def nctag_defs dom_map_of_conv_image_fst
    by (auto simp: lessThan_nat_numeral lessThan_Suc)
  then show ?thesis by (metis domIff lessThan_iff not_le)
qed

lemma errtypemap_None_iff:
  "errtypemap typ = None \<longleftrightarrow> typ \<notin> {''transport'', ''rpc'', ''protocol'', ''application''}"
  by (simp add: errtypemap_def)

section \<open>Verified properties\<close>

text \<open>
  C5. For every \<open>path\<close> and every \<open>lrefPath\<close>, \<open>NewLeafrefMismatchError path lrefPath\<close> builds
  a record in which \<open>lrefPath\<close> does not occur: the record has tag \<open>data-missing\<close>, app-tag
  \<open>instance-required\<close> and the path \<open>path\<close>, and it is, field for field, the record that
  \<open>NewInstanceRequiredError path\<close> builds. Only the wrapper differs.
\<close>
theorem leafref_record_is_instance_required_record:
  "NewLeafrefMismatchError path lrefPath =
     Inr (Typed LeafrefMismatchError
            \<lparr>XMLName = \<lparr>Space = netconf_namespace, Local = ''rpc-error''\<rparr>,
             Typ = ''application'', Tag = ''data-missing'', Severity = ''error'',
             AppTag = ''instance-required'', Path = path,
             Message = msg_yang_data_missing, Info = []\<rparr>)
   \<and> NewInstanceRequiredError path =
     Inr (Typed InstanceRequiredError
            \<lparr>XMLName = \<lparr>Space = netconf_namespace, Local = ''rpc-error''\<rparr>,
             Typ = ''application'', Tag = ''data-missing'', Severity = ''error'',
             AppTag = ''instance-required'', Path = path,
             Message = msg_yang_data_missing, Info = []\<rparr>)"
  by (simp add: NewLeafrefMismatchError_def NewInstanceRequiredError_def create_def
      newYangError_def setYangError_def yang_tables new_record)

text \<open>
  C3 (as the code has it). Construction of a base-protocol record fails in three ways that are
  told apart: with \<open>invalid_error_tag\<close> when the tag is outside the catalog (a number from 19
  on), with \<open>invalid_error_type\<close> when the tag is known and the type is not one of the four
  layer names, and with \<open>invalid_error_tag_type\<close> when the entry of the tag does not list the
  layer; the three errors are pairwise different. Construction of a YANG or vendor record fails
  with \<open>invalid_error_tag\<close> when the tag is outside its catalog. No construction looks the
  app-tag up: once the checks on tag and type have passed, the record is built and holds the
  app-tag it was given.
\<close>
theorem construction_failures:
  fixes e :: MgmtError
  shows
  "(19 \<le> tag \<longrightarrow> setNcError e tag typ apptag path info = Inl invalid_error_tag)
   \<and> (tag < 19 \<and> typ \<notin> {''transport'', ''rpc'', ''protocol'', ''application''}
        \<longrightarrow> setNcError e tag typ apptag path info = Inl invalid_error_type)
   \<and> (ncErrTable tag = Some t \<and> errtypemap typ = Some ty \<and> nc_typ t ty = None
        \<longrightarrow> setNcError e tag typ apptag path info = Inl invalid_error_tag_type)
   \<and> (ncErrTable tag = Some t \<and> errtypemap typ = Some ty \<and> nc_typ t ty = Some w
        \<longrightarrow> (\<exists>r. setNcError e tag typ apptag path info = Inr r \<and> AppTag r = apptag))
   \<and> invalid_error_tag \<noteq> invalid_error_type
   \<and> invalid_error_tag \<noteq> invalid_error_tag_type
   \<and> invalid_error_type \<noteq> invalid_error_tag_type
   \<and> (yangErrTable ytag = None
        \<longrightarrow> setYangError e ytag apptag path yangPath info = Inl invalid_error_tag)
   \<and> (yangErrTable ytag \<noteq> None
        \<longrightarrow> (\<exists>r. setYangError e ytag apptag path yangPath info = Inr r \<and> AppTag r = apptag))
   \<and> (vyErrTable vtag = None
        \<longrightarrow> setVyattaError e vtag apptag path info = Inl invalid_error_tag)
   \<and> (vyErrTable vtag \<noteq> None
        \<longrightarrow> (\<exists>r. setVyattaError e vtag apptag path info = Inr r \<and> AppTag r = apptag))"
proof -
  have a: "19 \<le> tag \<longrightarrow> setNcError e tag typ apptag path info = Inl invalid_error_tag"
  proof
    assume "19 \<le> tag"
    then have "ncErrTable tag = None" using ncErrTable_None_iff [of tag] by blast
    then show "setNcError e tag typ apptag path info = Inl invalid_error_tag"
      by (simp add: setNcError_def)
  qed
  have b: "tag < 19 \<and> typ \<notin> {''transport'', ''rpc'', ''protocol'', ''application''}
        \<longrightarrow> setNcError e tag typ apptag path info = Inl invalid_error_type"
  proof
    assume h: "tag < 19 \<and> typ \<notin> {''transport'', ''rpc'', ''protocol'', ''application''}"
    then obtain t where "ncErrTable tag = Some t"
      using ncErrTable_None_iff [of tag] by (cases "ncErrTable tag") auto
    moreover have "errtypemap typ = None" using h errtypemap_None_iff [of "typ"] by blast
    ultimately show "setNcError e tag typ apptag path info = Inl invalid_error_type"
      by (simp add: setNcError_def)
  qed
  have c: "ncErrTable tag = Some t \<and> errtypemap typ = Some ty \<and> nc_typ t ty = None
        \<longrightarrow> setNcError e tag typ apptag path info = Inl invalid_error_tag_type"
    by (simp add: setNcError_def)
  have d: "ncErrTable tag = Some t \<and> errtypemap typ = Some ty \<and> nc_typ t ty = Some w
        \<longrightarrow> (\<exists>r. setNcError e tag typ apptag path info = Inr r \<and> AppTag r = apptag)"
    by (simp add: setNcError_def)
  have y1: "yangErrTable ytag = None
        \<longrightarrow> setYangError e ytag apptag path yangPath info = Inl invalid_error_tag"
    by (simp add: setYangError_def)
  have y2: "yangErrTable ytag \<noteq> None
        \<longrightarrow> (\<exists>r. setYangError e ytag apptag path yangPath info = Inr r \<and> AppTag r = apptag)"
    by (auto simp: setYangError_def)
  have v1: "vyErrTable vtag = None
        \<longrightarrow> setVyattaError e vtag apptag path info = Inl invalid_error_tag"
    by (simp add: setVyattaError_def)
  have v2: "vyErrTable vtag \<noteq> None
        \<longrightarrow> (\<exists>r. setVyattaError e vtag apptag path info = Inr r \<and> AppTag r = apptag)"
    by (auto simp: setVyattaError_def)
  show ?thesis using a b c d y1 y2 v1 v2 by simp
qed

text \<open>Witness for C3: each way at a concrete input.\<close>
theorem construction_failures_witness:
  "setNcError newMgmtError 19 ''rpc'' [] [] None = Inl invalid_error_tag
   \<and> setNcError newMgmtError in_use ''bogus'' [] [] None = Inl invalid_error_type
   \<and> setNcError newMgmtError in_use ''rpc'' [] [] None = Inl invalid_error_tag_type
   \<and> (\<exists>r. setNcError newMgmtError in_use ''protocol'' ''anything'' [] None = Inr r
           \<and> AppTag r = ''anything'')
   \<and> setYangError newMgmtError 3 [] [] [] None = Inl invalid_error_tag
   \<and> (\<exists>r. setYangError newMgmtError yang_data_missing ''anything'' [] [] None = Inr r
           \<and> AppTag r = ''anything'')
   \<and> setVyattaError newMgmtError 1 [] [] None = Inl invalid_error_tag
   \<and> (\<exists>r. setVyattaError newMgmtError vyatta_operation_failed ''anything'' [] None = Inr r
           \<and> AppTag r = ''anything'')"
proof -
  define t where "t = \<lparr>nc_severity = nc_severity_error, nc_msg = msg_nc_in_use,
         nc_typ = map_of [(protocol, InUseProtocolError),
                          (application, InUseApplicationError)]\<rparr>"
  have t: "ncErrTable in_use = Some t"
    by (simp add: ncErrTable_def ncErrTable_list_def nctag_defs t_def)
  have t1: "nc_typ t rpc = None" and t2: "nc_typ t protocol = Some InUseProtocolError"
    by (simp_all add: t_def)
  have 1: "setNcError newMgmtError 19 ''rpc'' [] [] None = Inl invalid_error_tag"
    using construction_failures [of 19 newMgmtError "''rpc''" "[]" "[]" None] by simp
  have 2: "setNcError newMgmtError in_use ''bogus'' [] [] None = Inl invalid_error_type"
    using construction_failures [of in_use newMgmtError "''bogus''" "[]" "[]" None]
    by (simp add: in_use_def)
  have 3: "setNcError newMgmtError in_use ''rpc'' [] [] None = Inl invalid_error_tag_type"
    using construction_failures [of in_use newMgmtError "''rpc''" "[]" "[]" None t rpc] t t1
    by (simp add: errtypemap_def)
  have 4: "\<exists>r. setNcError newMgmtError in_use ''protocol'' ''anything'' [] None = Inr r
           \<and> AppTag r = ''anything''"
    using construction_failures [of in_use newMgmtError "''protocol''" "''anything''" "[]" None
        t protocol InUseProtocolError] t t2
    by (simp add: errtypemap_def)
  have 5: "setYangError newMgmtError 3 [] [] [] None = Inl invalid_error_tag"
    using construction_failures [where ytag = 3 and e = newMgmtError and apptag = "[]"
        and path = "[]" and yangPath = "[]" and info = None]
    by (simp add: yangErrTable_def yangErrTable_list_def ytag_defs)
  have 6: "\<exists>r. setYangError newMgmtError yang_data_missing ''anything'' [] [] None = Inr r
           \<and> AppTag r = ''anything''"
    using construction_failures [where ytag = yang_data_missing and e = newMgmtError
        and apptag = "''anything''" and path = "[]" and yangPath = "[]" and info = None]
    by (simp add: yangErrTable_def yangErrTable_list_def ytag_defs)
  have 7: "setVyattaError newMgmtError 1 [] [] None = Inl invalid_error_tag"
    using construction_failures [where vtag = 1 and e = newMgmtError and apptag = "[]"
        and path = "[]" and info = None]
    by (simp add: vyErrTable_def vytag_defs)
  have 8: "\<exists>r. setVyattaError newMgmtError vyatta_operation_failed ''anything'' [] None = Inr r
           \<and> AppTag r = ''anything''"
    using construction_failures [where vtag = vyatta_operation_failed and e = newMgmtError
        and apptag = "''anything''" and path = "[]" and info = None]
    by (simp add: vyErrTable_def vytag_defs)
  show ?thesis using 1 2 3 4 5 6 7 8 by blast
qed

text \<open>
  C3 as stated fails: \<open>NewMissingChoiceError\<close> builds a record with tag \<open>operation-failed\<close>
  and app-tag \<open>missing-choice\<close>, a pair that neither the YANG nor the vendor catalog lists
  under \<open>operation-failed\<close>, and the construction succeeds.
\<close>
theorem apptag_not_validated:
  "NewMissingChoiceError ''/foo/bar'' ''baz'' =
     Inr (Typed MissingChoiceError
            \<lparr>XMLName = \<lparr>Space = netconf_namespace, Local = ''rpc-error''\<rparr>,
             Typ = ''application'', Tag = ''operation-failed'', Severity = ''error'',
             AppTag = ''missing-choice'', Path = ''/foo/bar'',
             Message = msg_yang_operation_failed,
             Info = [\<lparr>XMLName = \<lparr>Space = yang_namespace, Local = ''missing-choice''\<rparr>,
                      Value = ''baz''\<rparr>]\<rparr>)
   \<and> getYangError
        \<lparr>XMLName = \<lparr>Space = netconf_namespace, Local = ''rpc-error''\<rparr>,
         Typ = ''application'', Tag = ''operation-failed'', Severity = ''error'',
         AppTag = ''missing-choice'', Path = ''/foo/bar'',
         Message = msg_yang_operation_failed,
         Info = [\<lparr>XMLName = \<lparr>Space = yang_namespace, Local = ''missing-choice''\<rparr>,
                  Value = ''baz''\<rparr>]\<rparr> = None
   \<and> getVyattaError
        \<lparr>XMLName = \<lparr>Space = netconf_namespace, Local = ''rpc-error''\<rparr>,
         Typ = ''application'', Tag = ''operation-failed'', Severity = ''error'',
         AppTag = ''missing-choice'', Path = ''/foo/bar'',
         Message = msg_yang_operation_failed,
         Info = [\<lparr>XMLName = \<lparr>Space = yang_namespace, Local = ''missing-choice''\<rparr>,
                  Value = ''baz''\<rparr>]\<rparr> = None"
  by (simp add: NewMissingChoiceError_def create_def newYangError_def setYangError_def
      yang_tables new_record getYangError_def getVyattaError_def vy_tables callCreate_def
      yangErrInfoId_String_def non_unique_info_def missing_choice_info_def)

lemma mkMgmtError_Typed: "mkMgmtError (Typed w r) = Inr (Typed w r)"
  by (simp add: mkMgmtError_def)

text \<open>
  C2. A deserialized record with tag \<open>operation-failed\<close>, type \<open>application\<close> and app-tag
  \<open>exec-failed\<close> is known to the vendor catalog and to the base-protocol catalog (which would
  make it an \<open>OperationFailedApplicationError\<close>); the classification of
  \<open>MgmtErrorList.UnmarshalJSON\<close> asks the vendor catalog first, and the member it appends is
  the \<open>ExecError\<close> wrapper around the record.
\<close>
theorem vendor_before_base_protocol:
  assumes "Tag r = ''operation-failed''" and "Typ r = ''application''"
    and "AppTag r = ''exec-failed''"
  shows "getVyattaError (setXMLName r) = Some (Typed ExecError (setXMLName r))
    \<and> getNetconfError (setXMLName r)
        = Some (Typed OperationFailedApplicationError (setXMLName r))
    \<and> classify (setXMLName r) = Typed ExecError (setXMLName r)
    \<and> UnmarshalJSON_loop e [Some r] = Inr (e @ [Typed ExecError (setXMLName r)])"
proof -
  have v: "getVyattaError (setXMLName r) = Some (Typed ExecError (setXMLName r))"
    using assms by (simp add: getVyattaError_def setXMLName_def vy_tables callCreate_def)
  have n: "getNetconfError (setXMLName r)
        = Some (Typed OperationFailedApplicationError (setXMLName r))"
    using assms by (simp add: getNetconfError_def setXMLName_def nc_tables callCreate_def)
  have c: "classify (setXMLName r) = Typed ExecError (setXMLName r)"
    using v by (simp add: classify_def)
  have l: "UnmarshalJSON_loop e [Some r] = Inr (e @ [Typed ExecError (setXMLName r)])"
    using c by (simp add: mkMgmtError_Typed)
  show ?thesis using v n c l by simp
qed

text \<open>Witness for C2: the list decoded from the JSON text of one such record.\<close>
theorem vendor_before_base_protocol_witness:
  "MgmtErrorList_UnmarshalJSON
     (JObject [(''error-list'',
        JArray [JObject [(''error-type'', JString ''application''),
                         (''error-tag'', JString ''operation-failed''),
                         (''error-severity'', JString ''error''),
                         (''error-app-tag'', JString ''exec-failed''),
                         (''error-path'', JString ''/usr/bin/app''),
                         (''error-message'', JString ''core dumped'')]])])
   = Inr [Typed ExecError
            \<lparr>XMLName = \<lparr>Space = netconf_namespace, Local = ''rpc-error''\<rparr>,
             Typ = ''application'', Tag = ''operation-failed'', Severity = ''error'',
             AppTag = ''exec-failed'', Path = ''/usr/bin/app'', Message = ''core dumped'',
             Info = []\<rparr>]"
proof -
  let ?r = "\<lparr>XMLName = \<lparr>Space = [], Local = []\<rparr>,
             Typ = ''application'', Tag = ''operation-failed'', Severity = ''error'',
             AppTag = ''exec-failed'', Path = ''/usr/bin/app'', Message = ''core dumped'',
             Info = []\<rparr>"
  have d: "decode_errs
     (JObject [(''error-list'',
        JArray [JObject [(''error-type'', JString ''application''),
                         (''error-tag'', JString ''operation-failed''),
                         (''error-severity'', JString ''error''),
                         (''error-app-tag'', JString ''exec-failed''),
                         (''error-path'', JString ''/usr/bin/app''),
                         (''error-message'', JString ''core dumped'')]])]) = Inr [Some ?r]"
    by (simp add: decode_field_def decode_string_field_def zero_MgmtError_def)
  have "UnmarshalJSON_loop [] [Some ?r] = Inr ([] @ [Typed ExecError (setXMLName ?r)])"
    using vendor_before_base_protocol [of ?r "[]"] by (simp del: UnmarshalJSON_loop.simps)
  then show ?thesis using d by (simp add: MgmtErrorList_UnmarshalJSON_def setXMLName_def)
qed

text \<open>
  C6. \<open>mkMgmtError\<close> returns a value that implements \<open>json.Marshaler\<close> or \<open>xml.Marshaler\<close>
  as it is. Otherwise a \<open>Formattable\<close> value (a bare record, or a foreign value with
  \<open>GetMessage\<close> and \<open>GetPath\<close>) becomes the generic \<open>operation-failed\<close>/\<open>application\<close>
  record with that message and that path, and a value with none of the three interfaces (a
  plain error) becomes the same generic record with its \<open>Error()\<close> text as message and an
  empty path. Every value other than the nil interface is normalized to a marshaller.
\<close>
theorem mkMgmtError_normalizes:
  "(implements_json_Marshaler e \<or> implements_xml_Marshaler e \<longrightarrow> mkMgmtError e = Inr e)
   \<and> (e = BareRecord r \<longrightarrow>
        \<not> implements_json_Marshaler e \<and> \<not> implements_xml_Marshaler e
        \<and> implements_Formattable e
        \<and> mkMgmtError e =
            Inr (Typed OperationFailedApplicationError
                   \<lparr>XMLName = \<lparr>Space = netconf_namespace, Local = ''rpc-error''\<rparr>,
                    Typ = ''application'', Tag = ''operation-failed'', Severity = ''error'',
                    AppTag = [], Path = Path r, Message = Message r, Info = []\<rparr>))
   \<and> (e = Foreign f \<and> \<not> implements_json_Marshaler e \<and> \<not> implements_xml_Marshaler e
        \<and> as_Formattable f = Some (msg, path) \<longrightarrow>
        mkMgmtError e =
            Inr (Typed OperationFailedApplicationError
                   \<lparr>XMLName = \<lparr>Space = netconf_namespace, Local = ''rpc-error''\<rparr>,
                    Typ = ''application'', Tag = ''operation-failed'', Severity = ''error'',
                    AppTag = [], Path = path, Message = msg, Info = []\<rparr>))
   \<and> (e = Foreign f \<and> \<not> implements_json_Marshaler e \<and> \<not> implements_xml_Marshaler e
        \<and> \<not> implements_Formattable e \<longrightarrow>
        mkMgmtError e =
            Inr (Typed OperationFailedApplicationError
                   \<lparr>XMLName = \<lparr>Space = netconf_namespace, Local = ''rpc-error''\<rparr>,
                    Typ = ''application'', Tag = ''operation-failed'', Severity = ''error'',
                    AppTag = [], Path = [], Message = Error_text f, Info = []\<rparr>))
   \<and> (e \<noteq> nil_error \<longrightarrow> (\<exists>m. mkMgmtError e = Inr m
          \<and> (implements_json_Marshaler m \<or> implements_xml_Marshaler m)))"
proof -
  have 1: "implements_json_Marshaler e \<or> implements_xml_Marshaler e \<longrightarrow> mkMgmtError e = Inr e"
    by (cases e) (auto simp: mkMgmtError_def)
  have 2: "e = BareRecord r \<longrightarrow>
        \<not> implements_json_Marshaler e \<and> \<not> implements_xml_Marshaler e
        \<and> implements_Formattable e
        \<and> mkMgmtError e =
            Inr (Typed OperationFailedApplicationError
                   \<lparr>XMLName = \<lparr>Space = netconf_namespace, Local = ''rpc-error''\<rparr>,
                    Typ = ''application'', Tag = ''operation-failed'', Severity = ''error'',
                    AppTag = [], Path = Path r, Message = Message r, Info = []\<rparr>)"
    by (simp add: mkMgmtError_def NewOperationFailedApplicationError_eq update_record_def)
  have 3: "e = Foreign f \<and> \<not> implements_json_Marshaler e \<and> \<not> implements_xml_Marshaler e
        \<and> as_Formattable f = Some (msg, path) \<longrightarrow>
        mkMgmtError e =
            Inr (Typed OperationFailedApplicationError
                   \<lparr>XMLName = \<lparr>Space = netconf_namespace, Local = ''rpc-error''\<rparr>,
                    Typ = ''application'', Tag = ''operation-failed'', Severity = ''error'',
                    AppTag = [], Path = path, Message = msg, Info = []\<rparr>)"
    by (auto simp: mkMgmtError_def NewOperationFailedApplicationError_eq update_record_def)
  have 4: "e = Foreign f \<and> \<not> implements_json_Marshaler e \<and> \<not> implements_xml_Marshaler e
        \<and> \<not> implements_Formattable e \<longrightarrow>
        mkMgmtError e =
            Inr (Typed OperationFailedApplicationError
                   \<lparr>XMLName = \<lparr>Space = netconf_namespace, Local = ''rpc-error''\<rparr>,
                    Typ = ''application'', Tag = ''operation-failed'', Severity = ''error'',
                    AppTag = [], Path = [], Message = Error_text f, Info = []\<rparr>)"
    by (cases "as_Formattable f")
      (auto simp: mkMgmtError_def NewOperationFailedApplicationError_eq update_record_def)
  have 5: "e \<noteq> nil_error \<longrightarrow> (\<exists>m. mkMgmtError e = Inr m
          \<and> (implements_json_Marshaler m \<or> implements_xml_Marshaler m))"
    by (cases e)
      (auto simp: mkMgmtError_def NewOperationFailedApplicationError_eq update_record_def
        split: option.splits)
  show ?thesis using 1 2 3 4 5 by blast
qed

text \<open>Witness for C6: a wrapper, a bare record, a foreign \<open>Formattable\<close> and a plain
  error.\<close>
theorem mkMgmtError_normalizes_witness:
  "mkMgmtError (Typed ExecError newMgmtError) = Inr (Typed ExecError newMgmtError)
   \<and> mkMgmtError (BareRecord (newMgmtError\<lparr>Tag := ''who-knows'', Path := ''/p'',
                                            Message := ''m''\<rparr>)) =
       Inr (Typed OperationFailedApplicationError
              \<lparr>XMLName = \<lparr>Space = netconf_namespace, Local = ''rpc-error''\<rparr>,
               Typ = ''application'', Tag = ''operation-failed'', Severity = ''error'',
               AppTag = [], Path = ''/p'', Message = ''m'', Info = []\<rparr>)
   \<and> mkMgmtError (Foreign \<lparr>is_json_Marshaler = False, is_xml_Marshaler = False,
                            as_Formattable = Some (''foreign message'', ''/foreign/path''),
                            Error_text = ''text'', json_Marshal_result = Inr (JObject []),
                            xml_Encode_result = Inr []\<rparr>) =
       Inr (Typed OperationFailedApplicationError
              \<lparr>XMLName = \<lparr>Space = netconf_namespace, Local = ''rpc-error''\<rparr>,
               Typ = ''application'', Tag = ''operation-failed'', Severity = ''error'',
               AppTag = [], Path = ''/foreign/path'', Message = ''foreign message'',
               Info = []\<rparr>)
   \<and> mkMgmtError (Foreign \<lparr>is_json_Marshaler = False, is_xml_Marshaler = False,
                            as_Formattable = None,
                            Error_text = ''This is not a MgmtError error'',
                            json_Marshal_result = Inr (JObject []),
                            xml_Encode_result = Inr []\<rparr>) =
       Inr (Typed OperationFailedApplicationError
              \<lparr>XMLName = \<lparr>Space = netconf_namespace, Local = ''rpc-error''\<rparr>,
               Typ = ''application'', Tag = ''operation-failed'', Severity = ''error'',
               AppTag = [], Path = [], Message = ''This is not a MgmtError error'',
               Info = []\<rparr>)"
proof -
  let ?b = "newMgmtError\<lparr>Tag := ''who-knows'', Path := ''/p'', Message := ''m''\<rparr>"
  let ?f = "\<lparr>is_json_Marshaler = False, is_xml_Marshaler = False,
             as_Formattable = Some (''foreign message'', ''/foreign/path''),
             Error_text = ''text'', json_Marshal_result = Inr (JObject []),
             xml_Encode_result = Inr []\<rparr>"
  let ?p = "\<lparr>is_json_Marshaler = False, is_xml_Marshaler = False,
             as_Formattable = None,
             Error_text = ''This is not a MgmtError error'',
             json_Marshal_result = Inr (JObject []),
             xml_Encode_result = Inr []\<rparr>"
  have 1: "mkMgmtError (Typed ExecError newMgmtError) = Inr (Typed ExecError newMgmtError)"
    using mkMgmtError_normalizes [of "Typed ExecError newMgmtError"] by simp
  have 2: "mkMgmtError (BareRecord ?b) =
       Inr (Typed OperationFailedApplicationError
              \<lparr>XMLName = \<lparr>Space = netconf_namespace, Local = ''rpc-error''\<rparr>,
               Typ = ''application'', Tag = ''operation-failed'', Severity = ''error'',
               AppTag = [], Path = ''/p'', Message = ''m'', Info = []\<rparr>)"
    using mkMgmtError_normalizes [of "BareRecord ?b" ?b] by simp
  have 3: "mkMgmtError (Foreign ?f) =
       Inr (Typed OperationFailedApplicationError
              \<lparr>XMLName = \<lparr>Space = netconf_namespace, Local = ''rpc-error''\<rparr>,
               Typ = ''application'', Tag = ''operation-failed'', Severity = ''error'',
               AppTag = [], Path = ''/foreign/path'', Message = ''foreign message'',
               Info = []\<rparr>)"
    using mkMgmtError_normalizes [of "Foreign ?f" _ ?f "''foreign message''" "''/foreign/path''"]
    by simp
  have 4: "mkMgmtError (Foreign ?p) =
       Inr (Typed OperationFailedApplicationError
              \<lparr>XMLName = \<lparr>Space = netconf_namespace, Local = ''rpc-error''\<rparr>,
               Typ = ''application'', Tag = ''operation-failed'', Severity = ''error'',
               AppTag = [], Path = [], Message = ''This is not a MgmtError error'',
               Info = []\<rparr>)"
    using mkMgmtError_normalizes [of "Foreign ?p" _ ?p] by simp
  show ?thesis using 1 2 3 4 by simp
qed





text \<open>
  C9. \<open>Error()\<close> and \<open>GetMessage()\<close> of the unknown-element wrappers and \<open>Error()\<close> of the
  missing-element wrappers read \<open>Info[0]\<close> without a check: on a record with no info entry
  the read is out of range (a panic), on a record with at least one entry they return a string.
  Every record built by one of the four public constructors has an entry. A record decoded
  from the wire with one of the two tags and no info entry is classified into the wrapper all
  the same, and its \<open>Error()\<close> then panics.
\<close>
theorem Info0_needs_an_entry:
  "(Info e = [] \<longrightarrow>
      unknownElemErrorString e = Inl panic_index_out_of_range
      \<and> UnknownElementError_GetMessage Makepath e = Inl panic_index_out_of_range
      \<and> missingElemErrorString e = Inl panic_index_out_of_range)
   \<and> (Info e \<noteq> [] \<longrightarrow>
      (\<exists>s. unknownElemErrorString e = Inr s)
      \<and> (\<exists>s. UnknownElementError_GetMessage Makepath e = Inr s)
      \<and> (\<exists>s. missingElemErrorString e = Inr s))
   \<and> (\<exists>r. NewUnknownElementProtocolError badElem = Inr (Typed UnknownElementProtocolError r)
          \<and> Info r \<noteq> [])
   \<and> (\<exists>r. NewUnknownElementApplicationError badElem
            = Inr (Typed UnknownElementApplicationError r) \<and> Info r \<noteq> [])
   \<and> (\<exists>r. NewMissingElementProtocolError badElem = Inr (Typed MissingElementProtocolError r)
          \<and> Info r \<noteq> [])
   \<and> (\<exists>r. NewMissingElementApplicationError badElem
            = Inr (Typed MissingElementApplicationError r) \<and> Info r \<noteq> [])
   \<and> ((Tag d, Typ d, w) \<in>
          {(''unknown-element'', ''protocol'', UnknownElementProtocolError),
           (''unknown-element'', ''application'', UnknownElementApplicationError),
           (''missing-element'', ''protocol'', MissingElementProtocolError),
           (''missing-element'', ''application'', MissingElementApplicationError)}
        \<and> Info d = [] \<longrightarrow>
        UnmarshalJSON_loop [] [Some d] = Inr [Typed w (setXMLName d)]
        \<and> error_value_Error natsort_Sort (Typed w (setXMLName d))
            = Inl panic_index_out_of_range)"
proof -
  have 1: "Info e = [] \<longrightarrow>
      unknownElemErrorString e = Inl panic_index_out_of_range
      \<and> UnknownElementError_GetMessage Makepath e = Inl panic_index_out_of_range
      \<and> missingElemErrorString e = Inl panic_index_out_of_range"
    by (simp add: unknownElemErrorString_def UnknownElementError_GetMessage_def
        missingElemErrorString_def)
  have 2: "Info e \<noteq> [] \<longrightarrow>
      (\<exists>s. unknownElemErrorString e = Inr s)
      \<and> (\<exists>s. UnknownElementError_GetMessage Makepath e = Inr s)
      \<and> (\<exists>s. missingElemErrorString e = Inr s)"
    by (cases "Info e")
      (simp_all add: unknownElemErrorString_def UnknownElementError_GetMessage_def
        missingElemErrorString_def)
  have 3: "\<exists>r. NewUnknownElementProtocolError badElem
            = Inr (Typed UnknownElementProtocolError r) \<and> Info r \<noteq> []"
    by (simp add: NewUnknownElementProtocolError_def create_def newUnknownElemError_def
        newElemError_def newNcError_def setNcError_def nc_tables)
  have 4: "\<exists>r. NewUnknownElementApplicationError badElem
            = Inr (Typed UnknownElementApplicationError r) \<and> Info r \<noteq> []"
    by (simp add: NewUnknownElementApplicationError_def create_def newUnknownElemError_def
        newElemError_def newNcError_def setNcError_def nc_tables)
  have 5: "\<exists>r. NewMissingElementProtocolError badElem
            = Inr (Typed MissingElementProtocolError r) \<and> Info r \<noteq> []"
    by (simp add: NewMissingElementProtocolError_def create_def newMissingElemError_def
        newElemError_def newNcError_def setNcError_def nc_tables)
  have 6: "\<exists>r. NewMissingElementApplicationError badElem
            = Inr (Typed MissingElementApplicationError r) \<and> Info r \<noteq> []"
    by (simp add: NewMissingElementApplicationError_def create_def newMissingElemError_def
        newElemError_def newNcError_def setNcError_def nc_tables)
  have 7: "(Tag d, Typ d, w) \<in>
          {(''unknown-element'', ''protocol'', UnknownElementProtocolError),
           (''unknown-element'', ''application'', UnknownElementApplicationError),
           (''missing-element'', ''protocol'', MissingElementProtocolError),
           (''missing-element'', ''application'', MissingElementApplicationError)}
        \<and> Info d = [] \<longrightarrow>
        UnmarshalJSON_loop [] [Some d] = Inr [Typed w (setXMLName d)]
        \<and> error_value_Error natsort_Sort (Typed w (setXMLName d))
            = Inl panic_index_out_of_range"
  proof
    assume h: "(Tag d, Typ d, w) \<in>
          {(''unknown-element'', ''protocol'', UnknownElementProtocolError),
           (''unknown-element'', ''application'', UnknownElementApplicationError),
           (''missing-element'', ''protocol'', MissingElementProtocolError),
           (''missing-element'', ''application'', MissingElementApplicationError)}
        \<and> Info d = []"
    have v: "getVyattaError (setXMLName d) = None"
      using h by (auto simp: getVyattaError_def setXMLName_def vyErrTagMap_def vyErrTag_list_def)
    have y: "getYangError (setXMLName d) = None"
      using h by (auto simp: getYangError_def setXMLName_def errtagmap_def errtag_list_def)
    have n: "getNetconfError (setXMLName d) = Some (Typed w (setXMLName d))"
      using h by (auto simp: getNetconfError_def setXMLName_def nc_tables callCreate_def)
    have c: "classify (setXMLName d) = Typed w (setXMLName d)"
      using v y n by (simp add: classify_def)
    have l: "UnmarshalJSON_loop [] [Some d] = Inr [Typed w (setXMLName d)]"
      using c by (simp add: mkMgmtError_Typed)
    have p: "error_value_Error natsort_Sort (Typed w (setXMLName d))
            = Inl panic_index_out_of_range"
      using h by (auto simp: error_value_Error_def wrapper_Error_def setXMLName_def
          unknownElemErrorString_def missingElemErrorString_def)
    show "UnmarshalJSON_loop [] [Some d] = Inr [Typed w (setXMLName d)]
        \<and> error_value_Error natsort_Sort (Typed w (setXMLName d))
            = Inl panic_index_out_of_range"
      using l p by simp
  qed
  show ?thesis using 1 2 3 4 5 6 7 by blast
qed

text \<open>Witness for C9: the wire text of an unknown-element error without \<open>error-info\<close>, and
  a record with one entry.\<close>
theorem Info0_needs_an_entry_witness:
  "MgmtErrorList_UnmarshalJSON
     (JObject [(''error-list'',
        JArray [JObject [(''error-type'', JString ''protocol''),
                         (''error-tag'', JString ''unknown-element''),
                         (''error-severity'', JString ''error'')]])])
   = Inr [Typed UnknownElementProtocolError
            \<lparr>XMLName = \<lparr>Space = netconf_namespace, Local = ''rpc-error''\<rparr>,
             Typ = ''protocol'', Tag = ''unknown-element'', Severity = ''error'',
             AppTag = [], Path = [], Message = [], Info = []\<rparr>]
   \<and> error_value_Error sort
        (Typed UnknownElementProtocolError
            \<lparr>XMLName = \<lparr>Space = netconf_namespace, Local = ''rpc-error''\<rparr>,
             Typ = ''protocol'', Tag = ''unknown-element'', Severity = ''error'',
             AppTag = [], Path = [], Message = [], Info = []\<rparr>)
       = Inl panic_index_out_of_range
   \<and> unknownElemErrorString
        \<lparr>XMLName = \<lparr>Space = netconf_namespace, Local = ''rpc-error''\<rparr>,
         Typ = ''protocol'', Tag = ''unknown-element'', Severity = ''error'',
         AppTag = [], Path = ''/a'', Message = [],
         Info = [\<lparr>XMLName = \<lparr>Space = [], Local = ''bad-element''\<rparr>, Value = ''b''\<rparr>]\<rparr>
       \<noteq> Inl panic_index_out_of_range"
proof -
  let ?d = "\<lparr>XMLName = \<lparr>Space = [], Local = []\<rparr>,
             Typ = ''protocol'', Tag = ''unknown-element'', Severity = ''error'',
             AppTag = [], Path = [], Message = [], Info = []\<rparr>"
  let ?e = "\<lparr>XMLName = \<lparr>Space = netconf_namespace, Local = ''rpc-error''\<rparr>,
         Typ = ''protocol'', Tag = ''unknown-element'', Severity = ''error'',
         AppTag = [], Path = ''/a'', Message = [],
         Info = [\<lparr>XMLName = \<lparr>Space = [], Local = ''bad-element''\<rparr>, Value = ''b''\<rparr>]\<rparr>"
  have d: "decode_errs
     (JObject [(''error-list'',
        JArray [JObject [(''error-type'', JString ''protocol''),
                         (''error-tag'', JString ''unknown-element''),
                         (''error-severity'', JString ''error'')]])]) = Inr [Some ?d]"
    by (simp add: decode_field_def decode_string_field_def zero_MgmtError_def)
  have l: "UnmarshalJSON_loop [] [Some ?d] = Inr [Typed UnknownElementProtocolError (setXMLName ?d)]
        \<and> error_value_Error sort (Typed UnknownElementProtocolError (setXMLName ?d))
            = Inl panic_index_out_of_range"
    using Info0_needs_an_entry [of _ _ _ ?d UnknownElementProtocolError sort]
    by (simp del: UnmarshalJSON_loop.simps)
  have 1: "MgmtErrorList_UnmarshalJSON
     (JObject [(''error-list'',
        JArray [JObject [(''error-type'', JString ''protocol''),
                         (''error-tag'', JString ''unknown-element''),
                         (''error-severity'', JString ''error'')]])])
   = Inr [Typed UnknownElementProtocolError (setXMLName ?d)]"
    using d l by (simp add: MgmtErrorList_UnmarshalJSON_def del: UnmarshalJSON_loop.simps)
  have 3: "unknownElemErrorString ?e \<noteq> Inl panic_index_out_of_range"
    using Info0_needs_an_entry [of ?e] by auto
  show ?thesis using 1 l 3 by (simp add: setXMLName_def)
qed

lemma MarshalJSON_members_all:
  "list_all2 (\<lambda>e j. json_Marshal e = Inr j) errs js \<Longrightarrow> MarshalJSON_members errs = Inr js"
  by (induction errs js rule: list_all2_induct) auto

lemma MarshalXML_all:
  "list_all2 (\<lambda>e ts. xml_Encode e = Inr ts) errs tss \<Longrightarrow>
   MgmtErrorList_MarshalXML errs = Inr (concat tss)"
  by (induction errs tss rule: list_all2_induct) auto

text \<open>
  C7. The JSON encoding of an error list is one object with the single key \<open>error-list\<close>,
  whose value is the array of the encodings of the members, in the order of the list. The XML
  encoding is what the members write, one after the other in the order of the list, with no
  element around them; for a list of typed errors that is one \<open>rpc-error\<close> element (in the
  base-protocol namespace) per member.
\<close>
theorem list_wire_shapes:
  "(list_all2 (\<lambda>e j. json_Marshal e = Inr j) errs js \<longrightarrow>
      MgmtErrorList_MarshalJSON errs = Inr (JObject [(''error-list'', JArray js)]))
   \<and> (list_all2 (\<lambda>e ts. xml_Encode e = Inr ts) errs tss \<longrightarrow>
      MgmtErrorList_MarshalXML errs = Inr (concat tss))
   \<and> MgmtErrorList_MarshalJSON (map (\<lambda>(w, r). Typed w r) ms) =
      Inr (JObject [(''error-list'', JArray (map (\<lambda>(w, r). MgmtError_MarshalJSON r) ms))])
   \<and> MgmtErrorList_MarshalXML (map (\<lambda>(w, r). Typed w r) ms) =
      Inr (map (\<lambda>(w, r). MgmtError_xml r) ms)
   \<and> ((\<forall>(w, r) \<in> set ms. XMLName r = XMLName newMgmtError) \<longrightarrow>
      map (\<lambda>(w, r). element_name (MgmtError_xml r)) ms =
      replicate (length ms) (Some \<lparr>Space = netconf_namespace, Local = ''rpc-error''\<rparr>))"
proof -
  have 1: "list_all2 (\<lambda>e j. json_Marshal e = Inr j) errs js \<longrightarrow>
      MgmtErrorList_MarshalJSON errs = Inr (JObject [(''error-list'', JArray js)])"
    by (simp add: MgmtErrorList_MarshalJSON_def MarshalJSON_members_all)
  have 2: "list_all2 (\<lambda>e ts. xml_Encode e = Inr ts) errs tss \<longrightarrow>
      MgmtErrorList_MarshalXML errs = Inr (concat tss)"
    by (simp add: MarshalXML_all)
  have "list_all2 (\<lambda>e j. json_Marshal e = Inr j) (map (\<lambda>(w, r). Typed w r) ms)
          (map (\<lambda>(w, r). MgmtError_MarshalJSON r) ms)"
    by (induction ms) (auto simp: json_Marshal_def)
  then have 3: "MgmtErrorList_MarshalJSON (map (\<lambda>(w, r). Typed w r) ms) =
      Inr (JObject [(''error-list'', JArray (map (\<lambda>(w, r). MgmtError_MarshalJSON r) ms))])"
    by (simp add: MgmtErrorList_MarshalJSON_def MarshalJSON_members_all)
  have 4: "MgmtErrorList_MarshalXML (map (\<lambda>(w, r). Typed w r) ms) =
      Inr (map (\<lambda>(w, r). MgmtError_xml r) ms)"
    by (induction ms) (auto simp: xml_Encode_def)
  have 5: "(\<forall>(w, r) \<in> set ms. XMLName r = XMLName newMgmtError) \<longrightarrow>
      map (\<lambda>(w, r). element_name (MgmtError_xml r)) ms =
      replicate (length ms) (Some \<lparr>Space = netconf_namespace, Local = ''rpc-error''\<rparr>)"
    by (induction ms) (auto simp: MgmtError_xml_def start_name_def new_record)
  show ?thesis using 1 2 3 4 5 by blast
qed

text \<open>Witness for C7: a typed error followed by a foreign marshaller.\<close>
theorem list_wire_shapes_witness:
  "MgmtErrorList_MarshalJSON
     [Typed ExecError newMgmtError,
      Foreign \<lparr>is_json_Marshaler = True, is_xml_Marshaler = True, as_Formattable = None,
               Error_text = ''foreign'', json_Marshal_result = Inr (JObject []),
               xml_Encode_result = Inr [Element \<lparr>Space = [], Local = ''foreign''\<rparr> []]\<rparr>]
     = Inr (JObject [(''error-list'',
              JArray [JObject [(''error-type'', JString []), (''error-tag'', JString []),
                               (''error-severity'', JString [])],
                      JObject []])])
   \<and> MgmtErrorList_MarshalXML
     [Typed ExecError newMgmtError,
      Foreign \<lparr>is_json_Marshaler = True, is_xml_Marshaler = True, as_Formattable = None,
               Error_text = ''foreign'', json_Marshal_result = Inr (JObject []),
               xml_Encode_result = Inr [Element \<lparr>Space = [], Local = ''foreign''\<rparr> []]\<rparr>]
     = Inr [MgmtError_xml newMgmtError, Element \<lparr>Space = [], Local = ''foreign''\<rparr> []]
   \<and> map (\<lambda>(w, r). element_name (MgmtError_xml r))
       [(ExecError, newMgmtError), (MustViolationError, newMgmtError)]
     = [Some \<lparr>Space = netconf_namespace, Local = ''rpc-error''\<rparr>,
        Some \<lparr>Space = netconf_namespace, Local = ''rpc-error''\<rparr>]"
proof -
  let ?f = "\<lparr>is_json_Marshaler = True, is_xml_Marshaler = True, as_Formattable = None,
               Error_text = ''foreign'', json_Marshal_result = Inr (JObject []),
               xml_Encode_result = Inr [Element \<lparr>Space = [], Local = ''foreign''\<rparr> []]\<rparr>"
  let ?errs = "[Typed ExecError newMgmtError, Foreign ?f]"
  let ?js = "[JObject [(''error-type'', JString []), (''error-tag'', JString []),
                       (''error-severity'', JString [])], JObject []]"
  let ?tss = "[[MgmtError_xml newMgmtError], [Element \<lparr>Space = [], Local = ''foreign''\<rparr> []]]"
  let ?ms = "[(ExecError, newMgmtError), (MustViolationError, newMgmtError)]"
  have a: "list_all2 (\<lambda>e j. json_Marshal e = Inr j) ?errs ?js"
    by (simp add: json_Marshal_def MgmtError_MarshalJSON_def omitempty_def new_record)
  have b: "list_all2 (\<lambda>e ts. xml_Encode e = Inr ts) ?errs ?tss"
    by (simp add: xml_Encode_def)
  have c: "\<forall>(w, r) \<in> set ?ms. XMLName r = XMLName newMgmtError" by simp
  have 1: "MgmtErrorList_MarshalJSON ?errs = Inr (JObject [(''error-list'', JArray ?js)])"
    using list_wire_shapes [of ?errs ?js] a by blast
  have 2: "MgmtErrorList_MarshalXML ?errs = Inr (concat ?tss)"
    using list_wire_shapes [of ?errs _ ?tss] b by blast
  have 3: "map (\<lambda>(w, r). element_name (MgmtError_xml r)) ?ms =
      replicate (length ?ms) (Some \<lparr>Space = netconf_namespace, Local = ''rpc-error''\<rparr>)"
    using list_wire_shapes [of _ _ _ ?ms] c by blast
  have 4: "replicate (length ?ms) (Some \<lparr>Space = netconf_namespace, Local = ''rpc-error''\<rparr>)
     = [Some \<lparr>Space = netconf_namespace, Local = ''rpc-error''\<rparr>,
        Some \<lparr>Space = netconf_namespace, Local = ''rpc-error''\<rparr>]"
    by (simp add: numeral_2_eq_2)
  show ?thesis using 1 2 3 4 by simp
qed

lemma MgmtErrorListAppend_order:
  "MgmtErrorListAppend e errs = Inr l \<Longrightarrow>
   \<exists>ms. l = e @ ms \<and> list_all2 (\<lambda>x m. mkMgmtError x = Inr m) errs ms"
proof (induction errs arbitrary: e)
  case Nil
  then show ?case by simp
next
  case (Cons x xs)
  then obtain m where m: "mkMgmtError x = Inr m" and r: "MgmtErrorListAppend (e @ [m]) xs = Inr l"
    by (auto split: sum.splits)
  from Cons.IH [OF r] obtain ms where "l = (e @ [m]) @ ms"
    and "list_all2 (\<lambda>x m. mkMgmtError x = Inr m) xs ms" by blast
  then show ?case using m by (intro exI [of _ "m # ms"]) simp
qed



lemma NewPathAmbiguousError_eq:
  "NewPathAmbiguousError Pathstr path matches =
     Inr (Typed PathAmbiguousError
            \<lparr>XMLName = \<lparr>Space = netconf_namespace, Local = ''rpc-error''\<rparr>,
             Typ = ''application'', Tag = ''operation-failed'', Severity = ''error'',
             AppTag = ''path-ambiguous'', Path = Pathstr path,
             Message = msg_yang_operation_failed,
             Info = map (\<lambda>(k, v). \<lparr>XMLName = \<lparr>Space = VyattaNamespace, Local = k\<rparr>,
                                     Value = v\<rparr>) matches\<rparr>)"
  by (simp add: NewPathAmbiguousError_def create_def newVyattaError_def setVyattaError_def
      vy_tables new_record NewMgmtErrorInfoTag_def)





lemma Split_from_no_sep:
  "sep \<notin> set s \<Longrightarrow> strings_Split_from acc sep s = [rev acc @ s]"
  by (induction s arbitrary: acc) auto

lemma Split_from_first_sep:
  "sep \<notin> set a \<Longrightarrow>
   strings_Split_from acc sep (a @ sep # b) = (rev acc @ a) # strings_Split_from [] sep b"
  by (induction a arbitrary: acc) auto

lemma Split_no_sep: "sep \<notin> set s \<Longrightarrow> strings_Split s sep = [s]"
  by (simp add: strings_Split_def Split_from_no_sep)

lemma Split_one_sep:
  "sep \<notin> set a \<Longrightarrow> sep \<notin> set b \<Longrightarrow> strings_Split (a @ sep # b) sep = [a, b]"
  by (simp add: strings_Split_def Split_from_first_sep Split_from_no_sep)

lemma UnmarshalJSON_one_colon:
  assumes "CHR '':'' \<notin> set a" and "CHR '':'' \<notin> set b"
  shows "MgmtErrorInfoTag_UnmarshalJSON j (JObject [(a @ '':'' @ b, JString v)]) =
           Inr (j\<lparr>XMLName := \<lparr>Space = lookupNamespace a, Local = b\<rparr>, Value := v\<rparr>)"
  using Split_one_sep [OF assms] by (simp add: MgmtErrorInfoTag_UnmarshalJSON_def)

lemma UnmarshalJSON_no_colon:
  assumes "CHR '':'' \<notin> set a"
  shows "MgmtErrorInfoTag_UnmarshalJSON j (JObject [(a, JString v)]) =
           Inr (j\<lparr>XMLName := (XMLName j)\<lparr>Local := a\<rparr>, Value := v\<rparr>)"
  using Split_no_sep [OF assms] by (simp add: MgmtErrorInfoTag_UnmarshalJSON_def)

lemma lookupModule_unknown:
  "ns \<notin> {netconf_namespace, yang_namespace, VyattaNamespace} \<Longrightarrow> lookupModule ns = ns"
  by (simp add: lookupModule_def)

lemma lookupNamespace_unknown:
  "m \<notin> {netconf_module, yang_module, vyattaModule} \<Longrightarrow> lookupNamespace m = m"
  by (simp add: lookupNamespace_def)

lemma lookup_known:
  "ns \<in> {netconf_namespace, yang_namespace, VyattaNamespace} \<Longrightarrow>
   lookupNamespace (lookupModule ns) = ns \<and> CHR '':'' \<notin> set (lookupModule ns)"
  by (auto simp: lookupNamespace_def lookupModule_def ns_defs)

lemma tag_roundtrip:
  fixes i :: MgmtErrorInfoTag
  assumes "tag_survives i"
  shows "MgmtErrorInfoTag_UnmarshalJSON zero_MgmtErrorInfoTag (MgmtErrorInfoTag_MarshalJSON i)
         = Inr i"
proof -
  have loc: "CHR '':'' \<notin> set (Local (XMLName i))" using assms by (simp add: tag_survives_def)
  consider (empty) "Space (XMLName i) = []"
    | (known) "Space (XMLName i) \<noteq> []"
        "Space (XMLName i) \<in> {netconf_namespace, yang_namespace, VyattaNamespace}"
    | (other) "Space (XMLName i) \<noteq> []"
        "Space (XMLName i) \<notin> {netconf_namespace, yang_namespace, VyattaNamespace}"
        "CHR '':'' \<notin> set (Space (XMLName i))"
        "Space (XMLName i) \<notin> {netconf_module, yang_module, vyattaModule}"
    using assms unfolding tag_survives_def by blast
  then show ?thesis
  proof cases
    case empty
    then show ?thesis
      using UnmarshalJSON_no_colon [OF loc, of zero_MgmtErrorInfoTag "Value i"]
      by (simp add: MgmtErrorInfoTag_MarshalJSON_def MgmtErrorInfoTag_tag_def
          zero_MgmtErrorInfoTag_def)
  next
    case known
    then show ?thesis
      using lookup_known [OF known(2)]
        UnmarshalJSON_one_colon [of "lookupModule (Space (XMLName i))" "Local (XMLName i)"
          zero_MgmtErrorInfoTag "Value i"] loc
      by (simp add: MgmtErrorInfoTag_MarshalJSON_def MgmtErrorInfoTag_tag_def
          zero_MgmtErrorInfoTag_def)
  next
    case other
    then show ?thesis
      using lookupModule_unknown [OF other(2)] lookupNamespace_unknown [OF other(4)]
        UnmarshalJSON_one_colon [of "Space (XMLName i)" "Local (XMLName i)"
          zero_MgmtErrorInfoTag "Value i"] loc
      by (simp add: MgmtErrorInfoTag_MarshalJSON_def MgmtErrorInfoTag_tag_def
          zero_MgmtErrorInfoTag_def)
  qed
qed




subsection \<open>Where the JSON round trip of a record holds\<close>

lemma decode_infos_roundtrip:
  "list_all tag_survives is \<Longrightarrow> decode_infos (map MgmtErrorInfoTag_MarshalJSON is) = Inr is"
  by (induction "is") (simp_all add: tag_roundtrip)

lemma record_roundtrip:
  fixes r :: MgmtError
  assumes "XMLName r = \<lparr>Space = netconf_namespace, Local = ''rpc-error''\<rparr>"
    and "list_all tag_survives (Info r)"
  shows "wrapper_UnmarshalJSON (MgmtError_MarshalJSON r) = Inr r"
proof -
  have "decode_infos (map MgmtErrorInfoTag_MarshalJSON (Info r)) = Inr (Info r)"
    using assms(2) by (rule decode_infos_roundtrip)
  then show ?thesis
    using assms(1)
    by (cases r)
      (simp add: wrapper_UnmarshalJSON_def MgmtError_MarshalJSON_def omitempty_def
        decode_field_def decode_string_field_def new_record)
qed

lemma PathAmbiguous_roundtrip:
  assumes "\<forall>(k, v) \<in> set matches. CHR '':'' \<notin> set k"
  shows "\<exists>r. NewPathAmbiguousError Pathstr path matches = Inr (Typed PathAmbiguousError r)
      \<and> wrapper_UnmarshalJSON (MgmtError_MarshalJSON r) = Inr r"
proof -
  have "list_all tag_survives
          (map (\<lambda>(k, v). \<lparr>XMLName = \<lparr>Space = VyattaNamespace, Local = k\<rparr>, Value = v\<rparr>)
             matches)"
    using assms by (induction matches) (auto simp: tag_survives_def)
  then show ?thesis
    unfolding NewPathAmbiguousError_eq by (simp add: record_roundtrip)
qed

lemma NonUnique_roundtrip:
  "\<exists>r. NewNonUniqueError paths = Inr (Typed NonUniqueError r)
      \<and> wrapper_UnmarshalJSON (MgmtError_MarshalJSON r) = Inr r"
proof -
  have "list_all tag_survives
          (map (\<lambda>p. \<lparr>XMLName = \<lparr>Space = yang_namespace, Local = ''non-unique''\<rparr>, Value = p\<rparr>)
             paths)"
    by (induction paths) (auto simp: tag_survives_def)
  then show ?thesis
    by (simp add: NewNonUniqueError_def create_def newYangError_def setYangError_def
        yang_tables new_record record_roundtrip yangErrInfoId_String_def non_unique_info_def
        needNodePath_def)
qed

lemma MissingAttrRpc_roundtrip:
  "\<exists>r. NewMissingAttrRpcError badAttr badElem = Inr (Typed MissingAttrRpcError r)
      \<and> wrapper_UnmarshalJSON (MgmtError_MarshalJSON r) = Inr r"
  by (simp add: NewMissingAttrRpcError_def create_def newAttrError_def newNcError_def
      setNcError_def nc_tables new_record record_roundtrip tag_survives_def
      ncErrInfoId_String_def bad_attribute_info_def bad_element_info_def)

text \<open>
  C1 at a failing input. \<open>NewPathAmbiguousError\<close> with the match name \<open>a:b\<close> builds a record
  whose info tag has the vendor namespace and the local name \<open>a:b\<close>; its JSON key is
  \<open>vyatta-yang:a:b\<close>, which \<open>UnmarshalJSON\<close> splits into three pieces, and the record that
  comes back has the info tag with an empty namespace and the local name \<open>vyatta-yang\<close>.
\<close>
theorem ambiguous_roundtrip_fails:
  "NewPathAmbiguousError Pathstr [''s''] [(''a:b'', ''x'')] =
     Inr (Typed PathAmbiguousError
            \<lparr>XMLName = \<lparr>Space = netconf_namespace, Local = ''rpc-error''\<rparr>,
             Typ = ''application'', Tag = ''operation-failed'', Severity = ''error'',
             AppTag = ''path-ambiguous'', Path = Pathstr [''s''],
             Message = msg_yang_operation_failed,
             Info = [\<lparr>XMLName = \<lparr>Space = VyattaNamespace, Local = ''a:b''\<rparr>,
                      Value = ''x''\<rparr>]\<rparr>)
   \<and> wrapper_UnmarshalJSON
       (MgmtError_MarshalJSON
          \<lparr>XMLName = \<lparr>Space = netconf_namespace, Local = ''rpc-error''\<rparr>,
           Typ = ''application'', Tag = ''operation-failed'', Severity = ''error'',
           AppTag = ''path-ambiguous'', Path = Pathstr [''s''],
           Message = msg_yang_operation_failed,
           Info = [\<lparr>XMLName = \<lparr>Space = VyattaNamespace, Local = ''a:b''\<rparr>,
                    Value = ''x''\<rparr>]\<rparr>) =
     Inr \<lparr>XMLName = \<lparr>Space = netconf_namespace, Local = ''rpc-error''\<rparr>,
          Typ = ''application'', Tag = ''operation-failed'', Severity = ''error'',
          AppTag = ''path-ambiguous'', Path = Pathstr [''s''],
          Message = msg_yang_operation_failed,
          Info = [\<lparr>XMLName = \<lparr>Space = [], Local = ''vyatta-yang''\<rparr>, Value = ''x''\<rparr>]\<rparr>
   \<and> wrapper_UnmarshalJSON
       (MgmtError_MarshalJSON
          \<lparr>XMLName = \<lparr>Space = netconf_namespace, Local = ''rpc-error''\<rparr>,
           Typ = ''application'', Tag = ''operation-failed'', Severity = ''error'',
           AppTag = ''path-ambiguous'', Path = Pathstr [''s''],
           Message = msg_yang_operation_failed,
           Info = [\<lparr>XMLName = \<lparr>Space = VyattaNamespace, Local = ''a:b''\<rparr>,
                    Value = ''x''\<rparr>]\<rparr>) \<noteq>
     Inr \<lparr>XMLName = \<lparr>Space = netconf_namespace, Local = ''rpc-error''\<rparr>,
          Typ = ''application'', Tag = ''operation-failed'', Severity = ''error'',
          AppTag = ''path-ambiguous'', Path = Pathstr [''s''],
          Message = msg_yang_operation_failed,
          Info = [\<lparr>XMLName = \<lparr>Space = VyattaNamespace, Local = ''a:b''\<rparr>,
                   Value = ''x''\<rparr>]\<rparr>"
proof -
  have i: "MgmtErrorInfoTag_UnmarshalJSON zero_MgmtErrorInfoTag
         (MgmtErrorInfoTag_MarshalJSON
            \<lparr>XMLName = \<lparr>Space = VyattaNamespace, Local = ''a:b''\<rparr>, Value = ''x''\<rparr>)
       = Inr \<lparr>XMLName = \<lparr>Space = [], Local = ''vyatta-yang''\<rparr>, Value = ''x''\<rparr>"
    by (simp add: MgmtErrorInfoTag_MarshalJSON_def MgmtErrorInfoTag_tag_def
      lookupModule_def ns_defs MgmtErrorInfoTag_UnmarshalJSON_def
      strings_Split_def zero_MgmtErrorInfoTag_def)
  have m: "msg_yang_operation_failed \<noteq> []" by (simp add: msg_yang_operation_failed_def)
  show ?thesis
    unfolding NewPathAmbiguousError_eq
    using i m
    by (cases "Pathstr [''s''] = []")
      (simp_all add: wrapper_UnmarshalJSON_def MgmtError_MarshalJSON_def omitempty_def
        decode_field_def decode_string_field_def new_record)
qed

end
